theory Spec2Isabelle
  imports Main "HOL-Library.List_Lexorder" "HOL-Library.Char_ord" "HOL-Library.Multiset"
begin

section \<open>Data model of main.go\<close>

text \<open>
  \<^verbatim>\<open>Change.Before\<close> and \<^verbatim>\<open>Change.After\<close> are \<^verbatim>\<open>interface{}\<close> values filled in by
  \<^verbatim>\<open>json.Unmarshal\<close>: \<^verbatim>\<open>nil\<close>, \<^verbatim>\<open>bool\<close>, a number, \<^verbatim>\<open>string\<close>,
  \<^verbatim>\<open>[]interface{}\<close> or \<^verbatim>\<open>map[string]interface{}\<close>. The program never computes with a
  number, it only prints it with \<^verbatim>\<open>%v\<close>; the numeric type is therefore a type parameter
  \<open>'n\<close>, and its \<^verbatim>\<open>%v\<close> rendering is a parameter \<open>nv\<close> of every function that prints.
  A Go map is an association list with one entry per key; lookups use \<open>map_of\<close>.
\<close>

datatype 'n jvalue =
    JNull
  | JBool bool
  | JNum 'n
  | JStr string
  | JArr "'n jvalue list"
  | JObj "(string \<times> 'n jvalue) list"

record 'n Change =
  Actions :: "string list"
  Before :: "'n jvalue"
  After :: "'n jvalue"
  AfterUnknown :: "'n jvalue"

record 'n ResourceChange =
  Address :: string
  ModuleAddress :: string
  Mode :: string
  Type :: string
  Name :: string
  ProviderName :: string
  Change :: "'n Change"

record 'n TerraformPlan =
  FormatVersion :: string
  TerraformVersion :: string
  ResourceChanges :: "'n ResourceChange list"

record 'n PlanInfo =
  Plan :: "'n TerraformPlan"
  RelativePath :: string

text \<open>
  The fields \<^verbatim>\<open>AttributeChange.Before\<close>, \<^verbatim>\<open>AttributeChange.After\<close> and
  \<^verbatim>\<open>ResourceDetail.Address\<close> are renamed, since a record field is a constant and the
  names are taken by \<open>Change\<close> and \<open>ResourceChange\<close>.
\<close>

record 'n AttributeChange =
  Attribute :: string
  attrBefore :: "'n jvalue"
  attrAfter :: "'n jvalue"
  IsNew :: bool
  IsRemoved :: bool

record 'n ResourceDetail =
  detailAddress :: string
  Changes :: "'n AttributeChange list"
  ForceReason :: string

record 'n ResourceSummary =
  Create :: "'n ResourceDetail list"
  Update :: "'n ResourceDetail list"
  Delete :: "'n ResourceDetail list"
  Replace :: "'n ResourceDetail list"

section \<open>Library functions used by the program\<close>

text \<open>\<^verbatim>\<open>strings.Join\<close>.\<close>

fun join :: "string \<Rightarrow> string list \<Rightarrow> string" where
  "join sep [] = []"
| "join sep [x] = x"
| "join sep (x # y # ys) = x @ sep @ join sep (y # ys)"

text \<open>\<^verbatim>\<open>%d\<close> of a length or a count (never negative): decimal digits.\<close>

definition digit :: "nat \<Rightarrow> char" where
  "digit d = (if d = 0 then CHR ''0'' else if d = 1 then CHR ''1'' else if d = 2 then CHR ''2''
     else if d = 3 then CHR ''3'' else if d = 4 then CHR ''4'' else if d = 5 then CHR ''5''
     else if d = 6 then CHR ''6'' else if d = 7 then CHR ''7'' else if d = 8 then CHR ''8''
     else CHR ''9'')"

fun itoa :: "nat \<Rightarrow> string" where
  "itoa n = (if n < 10 then [digit n] else itoa (n div 10) @ [digit (n mod 10)])"

text \<open>
  \<^verbatim>\<open>fmt.Sprintf("%v", x)\<close> on a decoded JSON value: \<^verbatim>\<open><nil>\<close> for nil, a string as it
  is, a slice as \<^verbatim>\<open>[e1 e2]\<close>, a map as \<^verbatim>\<open>map[k1:v1 k2:v2]\<close> with the keys in sorted order
  (bytewise string comparison), a number through \<open>nv\<close>.
\<close>

fun sprintv :: "('n \<Rightarrow> string) \<Rightarrow> 'n jvalue \<Rightarrow> string" where
  "sprintv nv JNull = ''<nil>''"
| "sprintv nv (JBool b) = (if b then ''true'' else ''false'')"
| "sprintv nv (JNum n) = nv n"
| "sprintv nv (JStr s) = s"
| "sprintv nv (JArr xs) = ''['' @ join '' '' (map (sprintv nv) xs) @ '']''"
| "sprintv nv (JObj kvs) =
     ''map['' @ join '' ''
        (map snd (sort_key fst (map (\<lambda>(k, v). (k, k @ '':'' @ sprintv nv v)) kvs))) @ '']''"

text \<open>The quote characters of the format strings.\<close>

abbreviation apos :: string where
  "apos \<equiv> [CHR 0x27]"

abbreviation dquote :: string where
  "dquote \<equiv> [CHR 0x22]"

section \<open>Attribute differ\<close>

fun containsAction :: "string list \<Rightarrow> string \<Rightarrow> bool" where
  "containsAction [] action = False"
| "containsAction (a # actions) action = (if a = action then True else containsAction actions action)"

definition skipAttributes :: "string list" where
  "skipAttributes = [''id'', ''arn'', ''tags_all'', ''timeouts'']"

fun shouldSkipLoop :: "string \<Rightarrow> string list \<Rightarrow> bool" where
  "shouldSkipLoop key [] = False"
| "shouldSkipLoop key (skip # rest) = (if key = skip then True else shouldSkipLoop key rest)"

definition shouldSkipAttribute :: "string \<Rightarrow> bool" where
  "shouldSkipAttribute key = shouldSkipLoop key skipAttributes"

definition deepEqual :: "('n \<Rightarrow> string) \<Rightarrow> 'n jvalue \<Rightarrow> 'n jvalue \<Rightarrow> bool" where
  "deepEqual nv a b = (sprintv nv a = sprintv nv b)"

text \<open>
  The body of the loop \<^verbatim>\<open>for key := range allKeys\<close> of \<^verbatim>\<open>analyzeAttributeChanges\<close>: the
  records it appends for one key. \<open>map_of m key\<close> is the two-valued lookup
  \<^verbatim>\<open>val, exists := m[key]\<close>; a record's missing side is the \<^verbatim>\<open>nil\<close> interface, \<open>JNull\<close>.
\<close>

definition attributeStep ::
  "('n \<Rightarrow> string) \<Rightarrow> (string \<times> 'n jvalue) list \<Rightarrow> (string \<times> 'n jvalue) list \<Rightarrow> string
     \<Rightarrow> 'n AttributeChange list" where
  "attributeStep nv beforeMap afterMap key =
     (if shouldSkipAttribute key then []
      else case (map_of beforeMap key, map_of afterMap key) of
        (None, Some afterVal) \<Rightarrow>
          [\<lparr>Attribute = key, attrBefore = JNull, attrAfter = afterVal,
            IsNew = True, IsRemoved = False\<rparr>]
      | (Some beforeVal, None) \<Rightarrow>
          [\<lparr>Attribute = key, attrBefore = beforeVal, attrAfter = JNull,
            IsNew = False, IsRemoved = True\<rparr>]
      | (Some beforeVal, Some afterVal) \<Rightarrow>
          (if \<not> deepEqual nv beforeVal afterVal
           then [\<lparr>Attribute = key, attrBefore = beforeVal, attrAfter = afterVal,
                  IsNew = False, IsRemoved = False\<rparr>]
           else [])
      | (None, None) \<Rightarrow> [])"

fun attributeLoop ::
  "('n \<Rightarrow> string) \<Rightarrow> (string \<times> 'n jvalue) list \<Rightarrow> (string \<times> 'n jvalue) list \<Rightarrow> string list
     \<Rightarrow> 'n AttributeChange list \<Rightarrow> 'n AttributeChange list" where
  "attributeLoop nv beforeMap afterMap [] changes = changes"
| "attributeLoop nv beforeMap afterMap (key # keys) changes =
     attributeLoop nv beforeMap afterMap keys (changes @ attributeStep nv beforeMap afterMap key)"

text \<open>
  Go iterates over a map in an order that the runtime chooses anew at every \<^verbatim>\<open>range\<close>
  statement. The order in which \<^verbatim>\<open>range allKeys\<close> yields the keys is therefore an argument
  \<open>keys\<close> of the model; \<open>rangeOrder\<close> says that it is an order Go can take: every key of
  \<open>beforeMap\<close> and \<open>afterMap\<close>, each once. (The two loops that fill \<^verbatim>\<open>allKeys\<close> build a
  set, whatever their order.)
\<close>

definition analyzeAttributeChanges ::
  "('n \<Rightarrow> string) \<Rightarrow> string list \<Rightarrow> 'n Change \<Rightarrow> 'n AttributeChange list" where
  "analyzeAttributeChanges nv keys change =
     (case Before change of
        JObj beforeMap \<Rightarrow>
          (case After change of
             JObj afterMap \<Rightarrow> attributeLoop nv beforeMap afterMap keys []
           | _ \<Rightarrow> [])
      | _ \<Rightarrow> [])"

definition rangeOrder :: "string list \<Rightarrow> 'n Change \<Rightarrow> bool" where
  "rangeOrder keys change =
     (case Before change of
        JObj beforeMap \<Rightarrow>
          (case After change of
             JObj afterMap \<Rightarrow>
               distinct keys \<and> set keys = set (map fst beforeMap) \<union> set (map fst afterMap)
           | _ \<Rightarrow> True)
      | _ \<Rightarrow> True)"

section \<open>Reasons\<close>

definition forceReplaceAttrs :: "string list" where
  "forceReplaceAttrs = [''name'', ''family'', ''engine'', ''vpc_id'', ''availability_zone'']"

text \<open>
  The nested loops of \<^verbatim>\<open>determineReplaceReason\<close>: the outer one runs over the changes, the
  inner one over \<^verbatim>\<open>forceReplaceAttrs\<close>; the first hit returns from the function.
\<close>

fun replaceInner :: "('n \<Rightarrow> string) \<Rightarrow> 'n AttributeChange \<Rightarrow> string list \<Rightarrow> string option" where
  "replaceInner nv attrChange [] = None"
| "replaceInner nv attrChange (forceAttr # rest) =
     (if Attribute attrChange = forceAttr
      then Some (''Attribute '' @ apos @ Attribute attrChange @ apos @ '' changed from '' @ apos
                 @ sprintv nv (attrBefore attrChange) @ apos @ '' to '' @ apos
                 @ sprintv nv (attrAfter attrChange) @ apos @ '' (forces replacement)'')
      else replaceInner nv attrChange rest)"

fun replaceOuter :: "('n \<Rightarrow> string) \<Rightarrow> 'n AttributeChange list \<Rightarrow> string option" where
  "replaceOuter nv [] = None"
| "replaceOuter nv (attrChange # rest) =
     (case replaceInner nv attrChange forceReplaceAttrs of
        Some reason \<Rightarrow> Some reason
      | None \<Rightarrow> replaceOuter nv rest)"

definition determineReplaceReason :: "('n \<Rightarrow> string) \<Rightarrow> string list \<Rightarrow> 'n Change \<Rightarrow> string" where
  "determineReplaceReason nv keys change =
     (let changes = analyzeAttributeChanges nv keys change in
      case replaceOuter nv changes of
        Some reason \<Rightarrow> reason
      | None \<Rightarrow>
          if length changes > 0 then ''Multiple attribute changes require replacement''
          else ''Resource configuration requires replacement'')"

definition keyAttrs :: "string list" where
  "keyAttrs = [''name'', ''id'', ''family'', ''engine'']"

fun deleteIdentifiers ::
  "('n \<Rightarrow> string) \<Rightarrow> (string \<times> 'n jvalue) list \<Rightarrow> string list \<Rightarrow> string list \<Rightarrow> string list" where
  "deleteIdentifiers nv beforeMap [] identifiers = identifiers"
| "deleteIdentifiers nv beforeMap (attr # rest) identifiers =
     (case map_of beforeMap attr of
        Some val \<Rightarrow>
          (if val \<noteq> JNull
           then deleteIdentifiers nv beforeMap rest (identifiers @ [attr @ '': '' @ sprintv nv val])
           else deleteIdentifiers nv beforeMap rest identifiers)
      | None \<Rightarrow> deleteIdentifiers nv beforeMap rest identifiers)"

definition determineDeleteReason :: "('n \<Rightarrow> string) \<Rightarrow> 'n Change \<Rightarrow> string" where
  "determineDeleteReason nv change =
     (case Before change of
        JObj beforeMap \<Rightarrow>
          (let identifiers = deleteIdentifiers nv beforeMap keyAttrs [] in
           if length identifiers > 0 then ''Resource with '' @ join '', '' identifiers
           else ''Resource marked for deletion'')
      | _ \<Rightarrow> ''Resource marked for deletion'')"

section \<open>Value formatting\<close>

fun formatAttributeValue :: "('n \<Rightarrow> string) \<Rightarrow> 'n jvalue \<Rightarrow> string" where
  "formatAttributeValue nv JNull = ''(null)''"
| "formatAttributeValue nv (JStr v) = (if v = [] then ''(empty)'' else dquote @ v @ dquote)"
| "formatAttributeValue nv (JArr v) =
     (if length v = 0 then ''[]'' else ''['' @ itoa (length v) @ '' items]'')"
| "formatAttributeValue nv (JObj v) =
     (if length v = 0 then ''{}'' else ''{'' @ itoa (length v) @ '' keys}'')"
| "formatAttributeValue nv v = sprintv nv v"

section \<open>Change classifier\<close>

text \<open>
  \<^verbatim>\<open>sortResourceDetails\<close> calls \<^verbatim>\<open>sort.Slice\<close> with the comparison
  \<^verbatim>\<open>resources[i].Address < resources[j].Address\<close> (bytewise string order). The model is the
  insertion sort that \<^verbatim>\<open>sort.Slice\<close> uses on short slices: each element in turn moves left
  past the elements it is less than. On long slices Go switches to another algorithm with
  the same contract: a sorted permutation, where the order of entries with equal addresses
  is not promised. The properties below rest on that contract only.
\<close>

fun insertDetail :: "'n ResourceDetail \<Rightarrow> 'n ResourceDetail list \<Rightarrow> 'n ResourceDetail list" where
  "insertDetail r [] = [r]"
| "insertDetail r (x # xs) =
     (if detailAddress r < detailAddress x then r # x # xs else x # insertDetail r xs)"

definition sortResourceDetails :: "'n ResourceDetail list \<Rightarrow> 'n ResourceDetail list" where
  "sortResourceDetails resources = foldl (\<lambda>sorted r. insertDetail r sorted) [] resources"

text \<open>
  \<^verbatim>\<open>analyzeResourceChanges\<close> calls \<^verbatim>\<open>analyzeAttributeChanges\<close> once for every resource
  change and, for a replacement, a second time inside \<^verbatim>\<open>determineReplaceReason\<close>. Each call
  ranges over its own \<^verbatim>\<open>allKeys\<close> map, so a run of the function is determined by the input
  and a schedule: for the resource change at index \<open>i\<close>, the key order of the first call
  and the key order of the second.
\<close>

type_synonym schedule = "nat \<Rightarrow> string list \<times> string list"

definition emptySummary :: "'n ResourceSummary" where
  "emptySummary = \<lparr>Create = [], Update = [], Delete = [], Replace = []\<rparr>"

definition classifyChange ::
  "('n \<Rightarrow> string) \<Rightarrow> string list \<times> string list \<Rightarrow> 'n ResourceSummary \<Rightarrow> 'n ResourceChange
     \<Rightarrow> 'n ResourceSummary" where
  "classifyChange nv orders summary change =
     (let resourceName = Address change;
          actions = Actions (Change change);
          detail = \<lparr>detailAddress = resourceName,
                    Changes = analyzeAttributeChanges nv (fst orders) (Change change),
                    ForceReason = []\<rparr>
      in if containsAction actions ''create'' \<and> containsAction actions ''delete''
         then summary\<lparr>Replace := Replace summary @
                [detail\<lparr>ForceReason := determineReplaceReason nv (snd orders) (Change change)\<rparr>]\<rparr>
         else if containsAction actions ''create''
         then summary\<lparr>Create := Create summary @ [detail]\<rparr>
         else if containsAction actions ''update''
         then summary\<lparr>Update := Update summary @ [detail]\<rparr>
         else if containsAction actions ''delete''
         then summary\<lparr>Delete := Delete summary @
                [detail\<lparr>ForceReason := determineDeleteReason nv (Change change)\<rparr>]\<rparr>
         else summary)"

fun classifyLoop ::
  "('n \<Rightarrow> string) \<Rightarrow> schedule \<Rightarrow> nat \<Rightarrow> 'n ResourceChange list \<Rightarrow> 'n ResourceSummary
     \<Rightarrow> 'n ResourceSummary" where
  "classifyLoop nv sched i [] summary = summary"
| "classifyLoop nv sched i (change # rest) summary =
     classifyLoop nv sched (Suc i) rest (classifyChange nv (sched i) summary change)"

definition analyzeResourceChanges ::
  "('n \<Rightarrow> string) \<Rightarrow> schedule \<Rightarrow> 'n ResourceChange list \<Rightarrow> 'n ResourceSummary" where
  "analyzeResourceChanges nv sched changes =
     (let summary = classifyLoop nv sched 0 changes emptySummary
      in \<lparr>Create = sortResourceDetails (Create summary),
          Update = sortResourceDetails (Update summary),
          Delete = sortResourceDetails (Delete summary),
          Replace = sortResourceDetails (Replace summary)\<rparr>)"

definition validSchedule :: "schedule \<Rightarrow> 'n ResourceChange list \<Rightarrow> bool" where
  "validSchedule sched changes =
     (\<forall>i < length changes.
        rangeOrder (fst (sched i)) (Change (changes ! i)) \<and>
        rangeOrder (snd (sched i)) (Change (changes ! i)))"

section \<open>Report renderer\<close>

text \<open>
  The non-ASCII characters of the string literals, as the bytes that the source file
  holds for them.
\<close>

definition emojiClipboard :: string where
  "emojiClipboard = [CHR 0xC3, CHR 0xB0, CHR 0xC5, CHR 0xB8, CHR 0xE2, CHR 0x80, CHR 0x9C,
     CHR 0xE2, CHR 0x80, CHR 0xB9]"

definition emojiCheck :: string where
  "emojiCheck = [CHR 0xC3, CHR 0xA2, CHR 0xC5, CHR 0x93, CHR 0xE2, CHR 0x80, CHR 0xA6]"

definition emojiChart :: string where
  "emojiChart = [CHR 0xC3, CHR 0xB0, CHR 0xC5, CHR 0xB8, CHR 0xE2, CHR 0x80, CHR 0x9C,
     CHR 0xC5, CHR 0xA0]"

definition emojiGreen :: string where
  "emojiGreen = [CHR 0xC3, CHR 0xB0, CHR 0xC5, CHR 0xB8, CHR 0xC5, CHR 0xB8, CHR 0xC2, CHR 0xA2]"

definition emojiYellow :: string where
  "emojiYellow = [CHR 0xC3, CHR 0xB0, CHR 0xC5, CHR 0xB8, CHR 0xC5, CHR 0xB8, CHR 0xC2, CHR 0xA1]"

definition emojiCycle :: string where
  "emojiCycle = [CHR 0xC3, CHR 0xB0, CHR 0xC5, CHR 0xB8, CHR 0xE2, CHR 0x80, CHR 0x9D,
     CHR 0xE2, CHR 0x80, CHR 0x9E]"

definition emojiRed :: string where
  "emojiRed = [CHR 0xC3, CHR 0xB0, CHR 0xC5, CHR 0xB8, CHR 0xE2, CHR 0x80, CHR 0x9D,
     CHR 0xC2, CHR 0xB4]"

definition emojiSite :: string where
  "emojiSite = [CHR 0xC3, CHR 0xB0, CHR 0xC5, CHR 0xB8, CHR 0xE2, CHR 0x80, CHR 0x94,
     CHR 0xC3, CHR 0xAF, CHR 0xC2, CHR 0xB8]"

definition emojiFolder :: string where
  "emojiFolder = [CHR 0xC3, CHR 0xB0, CHR 0xC5, CHR 0xB8, CHR 0xE2, CHR 0x80, CHR 0x9C]"

definition arrow :: string where
  "arrow = [CHR 0xC3, CHR 0xA2, CHR 0xE2, CHR 0x80, CHR 0xA0, CHR 0xE2, CHR 0x80, CHR 0x99]"

definition formatResourceList :: "'n ResourceDetail list \<Rightarrow> nat \<Rightarrow> string" where
  "formatResourceList resources maxDisplay =
     (if length resources = 0 then []
      else let resourceNames = map detailAddress resources
           in if length resourceNames \<le> maxDisplay then join '', '' resourceNames
              else join '', '' (take maxDisplay resourceNames) @ '', ... (+''
                   @ itoa (length resourceNames - maxDisplay) @ '' more)'')"

text \<open>
  One row of the table \<^verbatim>\<open>| Action | Count | Resources |\<close>, written when the bucket is
  not empty, and the table itself; both renderers write the same table.
\<close>

definition tableRow :: "string \<Rightarrow> 'n ResourceDetail list \<Rightarrow> string" where
  "tableRow label bucket =
     (if length bucket > 0
      then ''| '' @ label @ '' | '' @ itoa (length bucket) @ '' | ''
           @ formatResourceList bucket 3 @ '' |\<newline>''
      else [])"

definition summaryTable :: "'n ResourceSummary \<Rightarrow> string" where
  "summaryTable summary =
     ''| Action | Count | Resources |\<newline>'' @
     ''|--------|-------|----------|\<newline>'' @
     tableRow (emojiGreen @ '' **Create**'') (Create summary) @
     tableRow (emojiYellow @ '' **Update**'') (Update summary) @
     tableRow (emojiCycle @ '' **Replace**'') (Replace summary) @
     tableRow (emojiRed @ '' **Delete**'') (Delete summary) @
     ''\<newline>''"

text \<open>
  The line written for one attribute change; the Update and the Replace section of
  \<^verbatim>\<open>generateMarkdownComment\<close> hold the same three-way branch.
\<close>

definition attributeLine :: "('n \<Rightarrow> string) \<Rightarrow> 'n AttributeChange \<Rightarrow> string" where
  "attributeLine nv change =
     (if IsNew change
      then ''- **'' @ Attribute change @ ''**: '' @ formatAttributeValue nv (attrAfter change)
           @ '' *(new)*\<newline>''
      else if IsRemoved change
      then ''- **'' @ Attribute change @ ''**: '' @ formatAttributeValue nv (attrBefore change)
           @ '' *(removed)*\<newline>''
      else ''- **'' @ Attribute change @ ''**: '' @ formatAttributeValue nv (attrBefore change)
           @ '' '' @ arrow @ '' '' @ formatAttributeValue nv (attrAfter change) @ ''\<newline>'')"

definition createSection :: "'n ResourceSummary \<Rightarrow> string" where
  "createSection summary =
     (if length (Create summary) > 0
      then ''### '' @ emojiGreen @ '' Resources to be Created\<newline>\<newline>''
           @ concat (map (\<lambda>resource. ''- `'' @ detailAddress resource @ ''`\<newline>'')
               (Create summary))
           @ ''\<newline>''
      else [])"

definition updateResource :: "('n \<Rightarrow> string) \<Rightarrow> 'n ResourceDetail \<Rightarrow> string" where
  "updateResource nv resource =
     ''#### `'' @ detailAddress resource @ ''`\<newline>\<newline>''
     @ (if length (Changes resource) > 0
        then ''**Attributes being modified:**\<newline>\<newline>''
             @ concat (map (attributeLine nv) (Changes resource))
        else ''*No specific attribute changes detected*\<newline>'')
     @ ''\<newline>''"

definition updateSection :: "('n \<Rightarrow> string) \<Rightarrow> 'n ResourceSummary \<Rightarrow> string" where
  "updateSection nv summary =
     (if length (Update summary) > 0
      then ''### '' @ emojiYellow @ '' Resources to be Updated\<newline>\<newline>''
           @ concat (map (updateResource nv) (Update summary))
      else [])"

definition replaceResource :: "('n \<Rightarrow> string) \<Rightarrow> 'n ResourceDetail \<Rightarrow> string" where
  "replaceResource nv resource =
     ''#### `'' @ detailAddress resource @ ''`\<newline>\<newline>''
     @ (if ForceReason resource \<noteq> []
        then ''**Reason for replacement:** '' @ ForceReason resource @ ''\<newline>\<newline>''
        else [])
     @ (if length (Changes resource) > 0
        then ''**Attribute changes:**\<newline>\<newline>''
             @ concat (map (attributeLine nv) (Changes resource))
        else [])
     @ ''\<newline>''"

definition replaceSection :: "('n \<Rightarrow> string) \<Rightarrow> 'n ResourceSummary \<Rightarrow> string" where
  "replaceSection nv summary =
     (if length (Replace summary) > 0
      then ''### '' @ emojiCycle @ '' Resources to be Replaced\<newline>\<newline>''
           @ concat (map (replaceResource nv) (Replace summary))
      else [])"

definition deleteResource :: "'n ResourceDetail \<Rightarrow> string" where
  "deleteResource resource =
     ''#### `'' @ detailAddress resource @ ''`\<newline>\<newline>''
     @ (if ForceReason resource \<noteq> []
        then ''**Resource details:** '' @ ForceReason resource @ ''\<newline>\<newline>''
        else [])"

definition deleteSection :: "'n ResourceSummary \<Rightarrow> string" where
  "deleteSection summary =
     (if length (Delete summary) > 0
      then ''### '' @ emojiRed @ '' Resources to be Deleted\<newline>\<newline>''
           @ concat (map deleteResource (Delete summary))
      else [])"

text \<open>
  \<^verbatim>\<open>generateMarkdownComment\<close> after its first statement: everything it writes to the
  builder, from the summary and the plan's Terraform version.
\<close>

definition markdownOfSummary :: "('n \<Rightarrow> string) \<Rightarrow> 'n ResourceSummary \<Rightarrow> string \<Rightarrow> string" where
  "markdownOfSummary nv summary version =
     (let header = ''## '' @ emojiClipboard @ '' Terraform Plan Summary\<newline>\<newline>'';
          totalChanges = length (Create summary) + length (Update summary)
                         + length (Delete summary) + length (Replace summary)
      in if totalChanges = 0
         then header @ emojiCheck
              @ '' **No changes detected** - Infrastructure is up to date!\<newline>\<newline>''
         else header
              @ ''**Total resources affected:** '' @ itoa totalChanges @ ''\<newline>\<newline>''
              @ summaryTable summary
              @ createSection summary
              @ updateSection nv summary
              @ replaceSection nv summary
              @ deleteSection summary
              @ ''---\<newline>''
              @ ''*Generated from Terraform '' @ version @ '' plan*\<newline>'')"

definition generateMarkdownComment ::
  "('n \<Rightarrow> string) \<Rightarrow> schedule \<Rightarrow> 'n TerraformPlan \<Rightarrow> string" where
  "generateMarkdownComment nv sched plan =
     (let summary = analyzeResourceChanges nv sched (ResourceChanges plan)
      in markdownOfSummary nv summary (TerraformVersion plan))"

text \<open>
  \<^verbatim>\<open>generateMultiPlanMarkdownComment\<close>. It analyses every plan twice, once in the loop that
  adds up the totals and once in the loop that writes the environment sections, so a run
  takes two families of schedules, indexed by the position of the plan.
\<close>

fun totalsLoop ::
  "('n \<Rightarrow> string) \<Rightarrow> (nat \<Rightarrow> schedule) \<Rightarrow> nat \<Rightarrow> 'n PlanInfo list
     \<Rightarrow> nat \<times> nat \<times> nat \<times> nat \<times> string list \<Rightarrow> nat \<times> nat \<times> nat \<times> nat \<times> string list" where
  "totalsLoop nv scheds i [] totals = totals"
| "totalsLoop nv scheds i (planInfo # rest)
     (totalCreate, totalUpdate, totalDelete, totalReplace, allTerraformVersions) =
     (let summary = analyzeResourceChanges nv (scheds i) (ResourceChanges (Plan planInfo));
          version = TerraformVersion (Plan planInfo)
      in totalsLoop nv scheds (Suc i) rest
           (totalCreate + length (Create summary),
            totalUpdate + length (Update summary),
            totalDelete + length (Delete summary),
            totalReplace + length (Replace summary),
            if version \<in> set allTerraformVersions then allTerraformVersions
            else allTerraformVersions @ [version]))"

definition totalRow :: "string \<Rightarrow> nat \<Rightarrow> string" where
  "totalRow label n =
     (if n > 0 then ''| '' @ label @ '' | '' @ itoa n @ '' |\<newline>'' else [])"

definition changeDesc :: "'n AttributeChange \<Rightarrow> string" where
  "changeDesc change =
     (if IsNew change then Attribute change @ '' *(new)*''
      else if IsRemoved change then Attribute change @ '' *(removed)*''
      else Attribute change)"

definition envCreated :: "'n ResourceSummary \<Rightarrow> string" where
  "envCreated summary =
     (if length (Create summary) > 0
      then ''**'' @ emojiGreen @ '' Resources to be Created:**\<newline>''
           @ concat (map (\<lambda>resource. ''- `'' @ detailAddress resource @ ''`\<newline>'')
               (Create summary))
           @ ''\<newline>''
      else [])"

definition envUpdated :: "'n ResourceSummary \<Rightarrow> string" where
  "envUpdated summary =
     (if length (Update summary) > 0
      then ''**'' @ emojiYellow @ '' Resources to be Updated:**\<newline>''
           @ concat (map (\<lambda>resource.
               ''- `'' @ detailAddress resource @ ''`''
               @ (if length (Changes resource) > 0
                  then '' - '' @ join '', '' (map changeDesc (Changes resource))
                  else [])
               @ ''\<newline>'') (Update summary))
           @ ''\<newline>''
      else [])"

definition reasonBullet :: "'n ResourceDetail \<Rightarrow> string" where
  "reasonBullet resource =
     ''- `'' @ detailAddress resource @ ''`''
     @ (if ForceReason resource \<noteq> [] then '' - '' @ ForceReason resource else [])
     @ ''\<newline>''"

definition envReplaced :: "'n ResourceSummary \<Rightarrow> string" where
  "envReplaced summary =
     (if length (Replace summary) > 0
      then ''**'' @ emojiCycle @ '' Resources to be Replaced:**\<newline>''
           @ concat (map reasonBullet (Replace summary))
           @ ''\<newline>''
      else [])"

definition envDeleted :: "'n ResourceSummary \<Rightarrow> string" where
  "envDeleted summary =
     (if length (Delete summary) > 0
      then ''**'' @ emojiRed @ '' Resources to be Deleted:**\<newline>''
           @ concat (map reasonBullet (Delete summary))
           @ ''\<newline>''
      else [])"

definition envMarkdown :: "'n ResourceSummary \<Rightarrow> string \<Rightarrow> string" where
  "envMarkdown summary relativePath =
     (let envTotalChanges = length (Create summary) + length (Update summary)
                            + length (Delete summary) + length (Replace summary)
      in ''#### '' @ emojiFolder @ '' `'' @ relativePath @ ''`\<newline>\<newline>''
         @ (if envTotalChanges = 0
            then emojiCheck @ '' No changes in this environment\<newline>\<newline>''
            else summaryTable summary
                 @ envCreated summary
                 @ envUpdated summary
                 @ envReplaced summary
                 @ envDeleted summary
                 @ ''---\<newline>\<newline>''))"

fun envLoop :: "('n \<Rightarrow> string) \<Rightarrow> (nat \<Rightarrow> schedule) \<Rightarrow> nat \<Rightarrow> 'n PlanInfo list \<Rightarrow> string" where
  "envLoop nv scheds i [] = []"
| "envLoop nv scheds i (planInfo # rest) =
     envMarkdown (analyzeResourceChanges nv (scheds i) (ResourceChanges (Plan planInfo)))
       (RelativePath planInfo)
     @ envLoop nv scheds (Suc i) rest"

definition generateMultiPlanMarkdownComment ::
  "('n \<Rightarrow> string) \<Rightarrow> (nat \<Rightarrow> schedule) \<Rightarrow> (nat \<Rightarrow> schedule) \<Rightarrow> 'n PlanInfo list \<Rightarrow> string" where
  "generateMultiPlanMarkdownComment nv scheds1 scheds2 plans =
     (let header = ''## '' @ emojiClipboard
                   @ '' Multi-Environment Terraform Plan Summary\<newline>\<newline>''
      in case totalsLoop nv scheds1 0 plans (0, 0, 0, 0, []) of
        (totalCreate, totalUpdate, totalDelete, totalReplace, allTerraformVersions) \<Rightarrow>
          (let totalChanges = totalCreate + totalUpdate + totalDelete + totalReplace
           in if totalChanges = 0
              then header @ emojiCheck
                   @ '' **No changes detected across all environments** - Infrastructure is up to date!\<newline>\<newline>''
              else header
                   @ ''**Environments processed:** '' @ itoa (length plans) @ ''\<newline>''
                   @ ''**Total resources affected:** '' @ itoa totalChanges @ ''\<newline>\<newline>''
                   @ ''### '' @ emojiChart @ '' Overall Summary\<newline>\<newline>''
                   @ ''| Action | Total Count |\<newline>''
                   @ ''|--------|-------------|\<newline>''
                   @ totalRow (emojiGreen @ '' **Create**'') totalCreate
                   @ totalRow (emojiYellow @ '' **Update**'') totalUpdate
                   @ totalRow (emojiCycle @ '' **Replace**'') totalReplace
                   @ totalRow (emojiRed @ '' **Delete**'') totalDelete
                   @ ''\<newline>''
                   @ ''### '' @ emojiSite @ '' Environment Details\<newline>\<newline>''
                   @ envLoop nv scheds2 0 plans
                   @ (if length allTerraformVersions = 1
                      then ''*Generated from Terraform '' @ hd allTerraformVersions
                           @ '' plans*\<newline>''
                      else ''*Generated from Terraform plans (versions: ''
                           @ join '', '' allTerraformVersions @ '')*\<newline>'')))"

section \<open>Definitions used to state the properties\<close>

text \<open>
  The classification rule in the specification's words: a function of the set of action
  strings, so that neither their order nor their multiplicity can matter.
\<close>

datatype bucket = BCreate | BUpdate | BDelete | BReplace

definition bucketOfActions :: "string set \<Rightarrow> bucket option" where
  "bucketOfActions A =
     (if ''create'' \<in> A \<and> ''delete'' \<in> A then Some BReplace
      else if ''create'' \<in> A then Some BCreate
      else if ''update'' \<in> A then Some BUpdate
      else if ''delete'' \<in> A then Some BDelete
      else None)"

text \<open>
  The entry that the specification expects in bucket \<open>b\<close> for a resource change: its
  address, its attribute diff, and the reason of a replacement or a deletion.
\<close>

definition stepDetail ::
  "('n \<Rightarrow> string) \<Rightarrow> string list \<times> string list \<Rightarrow> bucket \<Rightarrow> 'n ResourceChange
     \<Rightarrow> 'n ResourceDetail" where
  "stepDetail nv orders b rc =
     \<lparr>detailAddress = Address rc,
      Changes = analyzeAttributeChanges nv (fst orders) (Change rc),
      ForceReason = (case b of
          BReplace \<Rightarrow> determineReplaceReason nv (snd orders) (Change rc)
        | BDelete \<Rightarrow> determineDeleteReason nv (Change rc)
        | _ \<Rightarrow> [])\<rparr>"

definition expectedDetail ::
  "('n \<Rightarrow> string) \<Rightarrow> schedule \<Rightarrow> bucket \<Rightarrow> nat \<Rightarrow> 'n ResourceChange \<Rightarrow> 'n ResourceDetail" where
  "expectedDetail nv sched b i rc = stepDetail nv (sched i) b rc"

definition expectedBucket ::
  "('n \<Rightarrow> string) \<Rightarrow> schedule \<Rightarrow> bucket \<Rightarrow> 'n ResourceChange list \<Rightarrow> 'n ResourceDetail list" where
  "expectedBucket nv sched b rcs =
     map (\<lambda>(i, rc). expectedDetail nv sched b i rc)
       (filter (\<lambda>(i, rc). bucketOfActions (set (Actions (Change rc))) = Some b)
          (enumerate 0 rcs))"

text \<open>The replacement reason that names an attribute, as the specification writes it.\<close>

definition forcesReplacementMessage :: "string \<Rightarrow> string \<Rightarrow> string \<Rightarrow> string" where
  "forcesReplacementMessage attr before after =
     ''Attribute '' @ apos @ attr @ apos @ '' changed from '' @ apos @ before @ apos
     @ '' to '' @ apos @ after @ apos @ '' (forces replacement)''"

text \<open>A schedule given by the list of its first entries; used for concrete runs.\<close>

definition scheduleOf :: "(string list \<times> string list) list \<Rightarrow> schedule" where
  "scheduleOf orders i = (if i < length orders then orders ! i else ([], []))"

text \<open>
  The keys of a change for which the differ writes a record, in a fixed order. A change
  with at most one such key has the same diff under every iteration order.
\<close>

definition reportableKeys :: "('n \<Rightarrow> string) \<Rightarrow> 'n Change \<Rightarrow> string list" where
  "reportableKeys nv change =
     (case Before change of
        JObj beforeMap \<Rightarrow>
          (case After change of
             JObj afterMap \<Rightarrow>
               filter (\<lambda>key. attributeStep nv beforeMap afterMap key \<noteq> [])
                 (remdups (map fst beforeMap @ map fst afterMap))
           | _ \<Rightarrow> [])
      | _ \<Rightarrow> [])"

text \<open>
  A summary without the attribute changes of skip-set keys: what is left of every entry's
  \<open>Changes\<close> when the records named \<^verbatim>\<open>id\<close>, \<^verbatim>\<open>arn\<close>, \<^verbatim>\<open>tags_all\<close> and \<^verbatim>\<open>timeouts\<close>
  are taken out.
\<close>

definition dropSkippedChanges :: "'n ResourceDetail \<Rightarrow> 'n ResourceDetail" where
  "dropSkippedChanges d =
     d\<lparr>Changes := filter (\<lambda>c. Attribute c \<notin> {''id'', ''arn'', ''tags_all'', ''timeouts''})
                      (Changes d)\<rparr>"

definition dropSkipped :: "'n ResourceSummary \<Rightarrow> 'n ResourceSummary" where
  "dropSkipped summary =
     \<lparr>Create = map dropSkippedChanges (Create summary),
      Update = map dropSkippedChanges (Update summary),
      Delete = map dropSkippedChanges (Delete summary),
      Replace = map dropSkippedChanges (Replace summary)\<rparr>"

section \<open>Auxiliary facts\<close>

subsection \<open>Small loops\<close>

lemma containsAction_set: "containsAction actions a = (a \<in> set actions)"
  by (induction actions) auto

lemma shouldSkipAttribute_iff:
  "shouldSkipAttribute k = (k \<in> {''id'', ''arn'', ''tags_all'', ''timeouts''})"
  by (auto simp: shouldSkipAttribute_def skipAttributes_def)

lemma card_keys:
  "distinct (map fst kvs) \<Longrightarrow> card (dom (map_of kvs)) = length kvs"
  using distinct_card[of "map fst kvs"] by (simp add: dom_map_of_conv_image_fst)

lemma deleteIdentifiers_eq:
  "deleteIdentifiers nv m ks acc =
     acc @ map (\<lambda>k. k @ '': '' @ sprintv nv (the (map_of m k)))
             (filter (\<lambda>k. map_of m k \<noteq> None \<and> map_of m k \<noteq> Some JNull) ks)"
  by (induction ks arbitrary: acc) (auto split: option.splits)

lemma replaceInner_eq:
  "replaceInner nv c fs =
     (if Attribute c \<in> set fs
      then Some (forcesReplacementMessage (Attribute c) (sprintv nv (attrBefore c))
                   (sprintv nv (attrAfter c)))
      else None)"
  by (induction fs) (auto simp: forcesReplacementMessage_def)

lemma replaceOuter_eq:
  "replaceOuter nv cs =
     map_option (\<lambda>c. forcesReplacementMessage (Attribute c) (sprintv nv (attrBefore c))
                       (sprintv nv (attrAfter c)))
       (find (\<lambda>c. Attribute c \<in> set forceReplaceAttrs) cs)"
  by (induction cs) (auto simp: replaceInner_eq)

subsection \<open>Sorting\<close>

lemma insertDetail_set: "set (insertDetail r xs) = insert r (set xs)"
  by (induction xs) auto

lemma insertDetail_mset: "mset (insertDetail r xs) = add_mset r (mset xs)"
  by (induction xs) auto

lemma insertDetail_sorted:
  "sorted (map detailAddress xs) \<Longrightarrow> sorted (map detailAddress (insertDetail r xs))"
  by (induction xs) (auto simp: insertDetail_set)

lemma foldl_insertDetail_sorted:
  "sorted (map detailAddress acc) \<Longrightarrow>
   sorted (map detailAddress (foldl (\<lambda>sorted r. insertDetail r sorted) acc xs))"
  by (induction xs arbitrary: acc) (auto simp: insertDetail_sorted)

lemma foldl_insertDetail_mset:
  "mset (foldl (\<lambda>sorted r. insertDetail r sorted) acc xs) = mset acc + mset xs"
  by (induction xs arbitrary: acc) (auto simp: insertDetail_mset)

lemma sortResourceDetails_sorted: "sorted (map detailAddress (sortResourceDetails xs))"
  by (simp add: sortResourceDetails_def foldl_insertDetail_sorted)

lemma sortResourceDetails_mset: "mset (sortResourceDetails xs) = mset xs"
  by (simp add: sortResourceDetails_def foldl_insertDetail_mset)

lemma sortResourceDetails_length: "length (sortResourceDetails xs) = length xs"
  using sortResourceDetails_mset[of xs] by (metis size_mset)

lemma sortResourceDetails_set: "set (sortResourceDetails xs) = set xs"
  using sortResourceDetails_mset[of xs] by (rule mset_eq_setD)

lemma sortResourceDetails_nth_mono:
  "i < j \<Longrightarrow> j < length (sortResourceDetails xs) \<Longrightarrow>
   detailAddress (sortResourceDetails xs ! i) \<le> detailAddress (sortResourceDetails xs ! j)"
  using sortResourceDetails_sorted[of xs]
  by (simp add: sorted_iff_nth_mono)

subsection \<open>The classification loop\<close>

lemma classifyChange_cases:
  "classifyChange nv orders s rc =
     (case bucketOfActions (set (Actions (Change rc))) of
        None \<Rightarrow> s
      | Some BCreate \<Rightarrow> s\<lparr>Create := Create s @ [stepDetail nv orders BCreate rc]\<rparr>
      | Some BUpdate \<Rightarrow> s\<lparr>Update := Update s @ [stepDetail nv orders BUpdate rc]\<rparr>
      | Some BDelete \<Rightarrow> s\<lparr>Delete := Delete s @ [stepDetail nv orders BDelete rc]\<rparr>
      | Some BReplace \<Rightarrow> s\<lparr>Replace := Replace s @ [stepDetail nv orders BReplace rc]\<rparr>)"
  unfolding classifyChange_def Let_def containsAction_set bucketOfActions_def stepDetail_def
  by simp

lemma classifyLoop_Create:
  "Create (classifyLoop nv sched i rcs s) =
     Create s @ map (\<lambda>(i, rc). expectedDetail nv sched BCreate i rc)
       (filter (\<lambda>(i, rc). bucketOfActions (set (Actions (Change rc))) = Some BCreate)
          (enumerate i rcs))"
proof (induction rcs arbitrary: i s)
  case Nil
  then show ?case by simp
next
  case (Cons rc rcs)
  show ?case
    by (simp add: Cons.IH classifyChange_cases expectedDetail_def
        split: option.split bucket.split)
qed

lemma classifyLoop_Update:
  "Update (classifyLoop nv sched i rcs s) =
     Update s @ map (\<lambda>(i, rc). expectedDetail nv sched BUpdate i rc)
       (filter (\<lambda>(i, rc). bucketOfActions (set (Actions (Change rc))) = Some BUpdate)
          (enumerate i rcs))"
proof (induction rcs arbitrary: i s)
  case Nil
  then show ?case by simp
next
  case (Cons rc rcs)
  show ?case
    by (simp add: Cons.IH classifyChange_cases expectedDetail_def
        split: option.split bucket.split)
qed

lemma classifyLoop_Delete:
  "Delete (classifyLoop nv sched i rcs s) =
     Delete s @ map (\<lambda>(i, rc). expectedDetail nv sched BDelete i rc)
       (filter (\<lambda>(i, rc). bucketOfActions (set (Actions (Change rc))) = Some BDelete)
          (enumerate i rcs))"
proof (induction rcs arbitrary: i s)
  case Nil
  then show ?case by simp
next
  case (Cons rc rcs)
  show ?case
    by (simp add: Cons.IH classifyChange_cases expectedDetail_def
        split: option.split bucket.split)
qed

lemma classifyLoop_Replace:
  "Replace (classifyLoop nv sched i rcs s) =
     Replace s @ map (\<lambda>(i, rc). expectedDetail nv sched BReplace i rc)
       (filter (\<lambda>(i, rc). bucketOfActions (set (Actions (Change rc))) = Some BReplace)
          (enumerate i rcs))"
proof (induction rcs arbitrary: i s)
  case Nil
  then show ?case by simp
next
  case (Cons rc rcs)
  show ?case
    by (simp add: Cons.IH classifyChange_cases expectedDetail_def
        split: option.split bucket.split)
qed

lemma classifyLoop_total:
  "length (Create (classifyLoop nv sched i rcs s)) + length (Update (classifyLoop nv sched i rcs s))
     + length (Delete (classifyLoop nv sched i rcs s))
     + length (Replace (classifyLoop nv sched i rcs s))
   = length (Create s) + length (Update s) + length (Delete s) + length (Replace s)
     + length (filter (\<lambda>rc. bucketOfActions (set (Actions (Change rc))) \<noteq> None) rcs)"
proof (induction rcs arbitrary: i s)
  case Nil
  then show ?case by simp
next
  case (Cons rc rcs)
  show ?case
    by (simp add: Cons.IH classifyChange_cases split: option.split bucket.split)
qed

lemma bucket_member_expected:
  assumes "d \<in> set (Create (analyzeResourceChanges nv sched rcs))
           \<union> set (Update (analyzeResourceChanges nv sched rcs))
           \<union> set (Delete (analyzeResourceChanges nv sched rcs))
           \<union> set (Replace (analyzeResourceChanges nv sched rcs))"
  shows "\<exists>bk i rc. d = expectedDetail nv sched bk i rc"
  using assms
  by (auto simp: analyzeResourceChanges_def Let_def emptySummary_def sortResourceDetails_set
      classifyLoop_Create classifyLoop_Update classifyLoop_Delete classifyLoop_Replace)

lemma classifyLoop_cong:
  "(\<forall>j. i \<le> j \<and> j < i + length rcs \<longrightarrow> s1 j = s2 j) \<Longrightarrow>
   classifyLoop nv s1 i rcs s = classifyLoop nv s2 i rcs s"
proof (induction rcs arbitrary: i s)
  case Nil
  then show ?case by simp
next
  case (Cons rc rcs)
  from Cons.prems have "s1 i = s2 i" by simp
  moreover have "classifyLoop nv s1 (Suc i) rcs s' = classifyLoop nv s2 (Suc i) rcs s'" for s'
    using Cons.prems by (intro Cons.IH) auto
  ultimately show ?case by simp
qed

subsection \<open>The attribute differ\<close>

lemma attributeLoop_concat:
  "attributeLoop nv b a ks acc = acc @ concat (map (attributeStep nv b a) ks)"
  by (induction ks arbitrary: acc) auto

lemma attributeStep_member:
  "c \<in> set (attributeStep nv b a k) \<Longrightarrow>
     Attribute c = k \<and> \<not> shouldSkipAttribute k \<and> \<not> (IsNew c \<and> IsRemoved c)
     \<and> (map_of b k \<noteq> None \<or> map_of a k \<noteq> None)"
  by (cases "map_of b k"; cases "map_of a k")
     (auto simp: attributeStep_def split: if_splits)

lemma attributeStep_same_lookup:
  "map_of b k = map_of a k \<Longrightarrow> attributeStep nv b a k = []"
  by (cases "map_of a k") (auto simp: attributeStep_def deepEqual_def)

lemma attributeStep_skip: "shouldSkipAttribute k \<Longrightarrow> attributeStep nv b a k = []"
  by (simp add: attributeStep_def)

lemma attributeStep_cong:
  "map_of b k = map_of b' k \<Longrightarrow> map_of a k = map_of a' k \<Longrightarrow>
   attributeStep nv b a k = attributeStep nv b' a' k"
  by (simp add: attributeStep_def)

lemma filter_attributeStep_other:
  "k' \<noteq> k \<Longrightarrow> filter (\<lambda>c. Attribute c = k) (attributeStep nv b a k') = []"
  by (auto simp: filter_empty_conv dest: attributeStep_member)

lemma filter_attributeStep_same:
  "filter (\<lambda>c. Attribute c = k) (attributeStep nv b a k) = attributeStep nv b a k"
  by (auto simp: filter_id_conv dest: attributeStep_member)

lemma filter_concat_attributeStep:
  "distinct ks \<Longrightarrow>
   filter (\<lambda>c. Attribute c = k) (concat (map (attributeStep nv b a) ks)) =
     (if k \<in> set ks then attributeStep nv b a k else [])"
proof (induction ks)
  case Nil
  then show ?case by simp
next
  case (Cons k' ks)
  show ?case
  proof (cases "k' = k")
    case True
    with Cons show ?thesis
      by (simp add: filter_attributeStep_same)
  next
    case False
    with Cons show ?thesis
      by (auto simp: filter_attributeStep_other)
  qed
qed

lemma analyzeAttributeChanges_maps:
  "Before ch = JObj b \<Longrightarrow> After ch = JObj a \<Longrightarrow>
   analyzeAttributeChanges nv ks ch = concat (map (attributeStep nv b a) ks)"
  by (simp add: analyzeAttributeChanges_def attributeLoop_concat)

lemma analyzeAttributeChanges_not_maps:
  "(\<forall>m. Before ch \<noteq> JObj m) \<or> (\<forall>m. After ch \<noteq> JObj m) \<Longrightarrow>
   analyzeAttributeChanges nv ks ch = []"
  by (auto simp: analyzeAttributeChanges_def split: jvalue.splits)

lemma analyzeAttributeChanges_member:
  assumes "c \<in> set (analyzeAttributeChanges nv ks ch)"
  shows "\<exists>b a. Before ch = JObj b \<and> After ch = JObj a \<and> Attribute c \<in> set ks
           \<and> c \<in> set (attributeStep nv b a (Attribute c))"
proof -
  from assms obtain b a where ba: "Before ch = JObj b" "After ch = JObj a"
    by (cases "Before ch"; cases "After ch") (auto simp: analyzeAttributeChanges_def)
  with assms obtain k where "k \<in> set ks" "c \<in> set (attributeStep nv b a k)"
    by (auto simp: analyzeAttributeChanges_maps)
  moreover from this have "Attribute c = k"
    by (auto dest: attributeStep_member)
  ultimately show ?thesis using ba by auto
qed

lemma analyzeAttributeChanges_no_skip:
  "c \<in> set (analyzeAttributeChanges nv ks ch) \<Longrightarrow>
   Attribute c \<notin> {''id'', ''arn'', ''tags_all'', ''timeouts''}"
  using shouldSkipAttribute_iff
  by (blast dest: analyzeAttributeChanges_member attributeStep_member)

lemma analyzeAttributeChanges_filter:
  assumes "Before ch = JObj b" "After ch = JObj a" "rangeOrder ks ch"
    and "map_of b k \<noteq> None \<or> map_of a k \<noteq> None"
  shows "filter (\<lambda>c. Attribute c = k) (analyzeAttributeChanges nv ks ch) = attributeStep nv b a k"
proof -
  from assms(1-3) have d: "distinct ks" and s: "set ks = set (map fst b) \<union> set (map fst a)"
    by (simp_all add: rangeOrder_def)
  from assms(4) have "k \<in> set ks"
    unfolding s by (auto simp: map_of_eq_None_iff)
  with d show ?thesis
    by (simp add: analyzeAttributeChanges_maps[OF assms(1,2)] filter_concat_attributeStep)
qed

lemma bucket_member_no_skip:
  assumes "d \<in> set (Create (analyzeResourceChanges nv sched rcs))
           \<union> set (Update (analyzeResourceChanges nv sched rcs))
           \<union> set (Delete (analyzeResourceChanges nv sched rcs))
           \<union> set (Replace (analyzeResourceChanges nv sched rcs))"
    and "c \<in> set (Changes d)"
  shows "Attribute c \<notin> {''id'', ''arn'', ''tags_all'', ''timeouts''}"
proof -
  from assms(1) obtain bk i rc where "d = expectedDetail nv sched bk i rc"
    using bucket_member_expected by blast
  then have "Changes d = analyzeAttributeChanges nv (fst (sched i)) (Change rc)"
    by (simp add: expectedDetail_def stepDetail_def)
  with assms(2) have "c \<in> set (analyzeAttributeChanges nv (fst (sched i)) (Change rc))"
    by simp
  then show ?thesis
    by (rule analyzeAttributeChanges_no_skip)
qed

lemma dropSkipped_analyzeResourceChanges:
  "dropSkipped (analyzeResourceChanges nv sched rcs) = analyzeResourceChanges nv sched rcs"
proof -
  have "dropSkippedChanges d = d"
    if "d \<in> set (Create (analyzeResourceChanges nv sched rcs))
           \<union> set (Update (analyzeResourceChanges nv sched rcs))
           \<union> set (Delete (analyzeResourceChanges nv sched rcs))
           \<union> set (Replace (analyzeResourceChanges nv sched rcs))" for d
  proof -
    have "filter (\<lambda>c. Attribute c \<notin> {''id'', ''arn'', ''tags_all'', ''timeouts''}) (Changes d)
        = Changes d"
      using that bucket_member_no_skip[of d nv sched rcs] by (intro filter_True) blast
    then show ?thesis
      by (simp add: dropSkippedChanges_def)
  qed
  then have "map dropSkippedChanges (Create (analyzeResourceChanges nv sched rcs))
        = Create (analyzeResourceChanges nv sched rcs)"
    and "map dropSkippedChanges (Update (analyzeResourceChanges nv sched rcs))
        = Update (analyzeResourceChanges nv sched rcs)"
    and "map dropSkippedChanges (Delete (analyzeResourceChanges nv sched rcs))
        = Delete (analyzeResourceChanges nv sched rcs)"
    and "map dropSkippedChanges (Replace (analyzeResourceChanges nv sched rcs))
        = Replace (analyzeResourceChanges nv sched rcs)"
    by (simp_all add: map_idI)
  then show ?thesis
    by (simp add: dropSkipped_def)
qed

subsection \<open>Independence of the iteration order and of the skipped attributes\<close>

lemma concat_map_filter_nonempty:
  "concat (map f xs) = concat (map f (filter (\<lambda>x. f x \<noteq> []) xs))"
  by (induction xs) auto

lemma distinct_same_set_short:
  assumes "distinct xs" "distinct ys" "set xs = set ys" "length xs \<le> 1"
  shows "xs = ys"
proof -
  have "length ys = length xs"
    using assms(1-3) by (metis distinct_card)
  with assms show ?thesis
    by (cases xs; cases ys) auto
qed

lemma analyzeAttributeChanges_order_irrelevant:
  assumes "rangeOrder ks1 ch" "rangeOrder ks2 ch" "length (reportableKeys nv ch) \<le> 1"
  shows "analyzeAttributeChanges nv ks1 ch = analyzeAttributeChanges nv ks2 ch"
proof (cases "\<exists>b a. Before ch = JObj b \<and> After ch = JObj a")
  case False
  then have "(\<forall>m. Before ch \<noteq> JObj m) \<or> (\<forall>m. After ch \<noteq> JObj m)" by blast
  then show ?thesis by (simp add: analyzeAttributeChanges_not_maps)
next
  case True
  then obtain b a where ba: "Before ch = JObj b" "After ch = JObj a" by blast
  let ?P = "\<lambda>k. attributeStep nv b a k \<noteq> []"
  let ?kc = "remdups (map fst b @ map fst a)"
  from assms(1,2) ba have d: "distinct ks1" "distinct ks2"
    and s: "set ks1 = set ?kc" "set ks2 = set ?kc"
    by (auto simp: rangeOrder_def)
  from assms(3) ba have l: "length (filter ?P ?kc) \<le> 1"
    by (simp add: reportableKeys_def)
  have "filter ?P ?kc = filter ?P ks1"
    using d s l by (intro distinct_same_set_short) auto
  moreover have "filter ?P ?kc = filter ?P ks2"
    using d s l by (intro distinct_same_set_short) auto
  ultimately have "filter ?P ks1 = filter ?P ks2" by simp
  then have "concat (map (attributeStep nv b a) ks1) = concat (map (attributeStep nv b a) ks2)"
    using concat_map_filter_nonempty[of "attributeStep nv b a" ks1]
      concat_map_filter_nonempty[of "attributeStep nv b a" ks2]
    by simp
  with ba show ?thesis by (simp add: analyzeAttributeChanges_maps)
qed

lemma classifyChange_order_irrelevant:
  assumes "rangeOrder (fst o1) (Change rc)" "rangeOrder (fst o2) (Change rc)"
    and "rangeOrder (snd o1) (Change rc)" "rangeOrder (snd o2) (Change rc)"
    and "length (reportableKeys nv (Change rc)) \<le> 1"
  shows "classifyChange nv o1 s rc = classifyChange nv o2 s rc"
proof -
  have a: "analyzeAttributeChanges nv (fst o1) (Change rc)
      = analyzeAttributeChanges nv (fst o2) (Change rc)"
    using assms by (intro analyzeAttributeChanges_order_irrelevant)
  have "analyzeAttributeChanges nv (snd o1) (Change rc)
      = analyzeAttributeChanges nv (snd o2) (Change rc)"
    using assms by (intro analyzeAttributeChanges_order_irrelevant)
  then have r: "determineReplaceReason nv (snd o1) (Change rc)
      = determineReplaceReason nv (snd o2) (Change rc)"
    unfolding determineReplaceReason_def by (rule arg_cong)
  show ?thesis
    unfolding classifyChange_def a r ..
qed

lemma classifyLoop_order_irrelevant:
  assumes "\<forall>j < length rcs. rangeOrder (fst (s1 (i + j))) (Change (rcs ! j))
              \<and> rangeOrder (snd (s1 (i + j))) (Change (rcs ! j))
              \<and> rangeOrder (fst (s2 (i + j))) (Change (rcs ! j))
              \<and> rangeOrder (snd (s2 (i + j))) (Change (rcs ! j))
              \<and> length (reportableKeys nv (Change (rcs ! j))) \<le> 1"
  shows "classifyLoop nv s1 i rcs s = classifyLoop nv s2 i rcs s"
  using assms
proof (induction rcs arbitrary: i s)
  case Nil
  then show ?case by simp
next
  case (Cons rc rcs)
  from Cons.prems[rule_format, of 0]
  have h: "classifyChange nv (s1 i) s rc = classifyChange nv (s2 i) s rc"
    by (intro classifyChange_order_irrelevant) simp_all
  have "classifyLoop nv s1 (Suc i) rcs s' = classifyLoop nv s2 (Suc i) rcs s'" for s'
  proof (rule Cons.IH, intro allI impI)
    fix j assume "j < length rcs"
    then have "Suc j < length (rc # rcs)" by simp
    from Cons.prems[rule_format, OF this]
    show "rangeOrder (fst (s1 (Suc i + j))) (Change (rcs ! j))
              \<and> rangeOrder (snd (s1 (Suc i + j))) (Change (rcs ! j))
              \<and> rangeOrder (fst (s2 (Suc i + j))) (Change (rcs ! j))
              \<and> rangeOrder (snd (s2 (Suc i + j))) (Change (rcs ! j))
              \<and> length (reportableKeys nv (Change (rcs ! j))) \<le> 1"
      by simp
  qed
  with h show ?case by simp
qed

lemma analyzeResourceChanges_order_irrelevant:
  assumes "validSchedule s1 rcs" "validSchedule s2 rcs"
    and "\<forall>rc \<in> set rcs. length (reportableKeys nv (Change rc)) \<le> 1"
  shows "analyzeResourceChanges nv s1 rcs = analyzeResourceChanges nv s2 rcs"
proof -
  have "classifyLoop nv s1 0 rcs emptySummary = classifyLoop nv s2 0 rcs emptySummary"
    using assms by (intro classifyLoop_order_irrelevant) (simp add: validSchedule_def)
  then show ?thesis by (simp add: analyzeResourceChanges_def)
qed

lemma concat_attributeStep_nonskip:
  "concat (map (attributeStep nv b a) ks) =
   concat (map (attributeStep nv b a) (filter (\<lambda>k. \<not> shouldSkipAttribute k) ks))"
  by (induction ks) (auto simp: attributeStep_skip)

lemma analyzeAttributeChanges_skip_independent:
  assumes "Before ch = JObj b" "After ch = JObj a" "Before ch' = JObj b'" "After ch' = JObj a'"
    and "\<forall>k. \<not> shouldSkipAttribute k \<longrightarrow> map_of b k = map_of b' k \<and> map_of a k = map_of a' k"
    and "filter (\<lambda>k. \<not> shouldSkipAttribute k) ks = filter (\<lambda>k. \<not> shouldSkipAttribute k) ks'"
  shows "analyzeAttributeChanges nv ks ch = analyzeAttributeChanges nv ks' ch'"
proof -
  let ?f = "filter (\<lambda>k. \<not> shouldSkipAttribute k)"
  have m: "map (attributeStep nv b a) (?f ks') = map (attributeStep nv b' a') (?f ks')"
    using assms(5) by (intro map_cong refl attributeStep_cong) auto
  have "analyzeAttributeChanges nv ks ch = concat (map (attributeStep nv b a) (?f ks))"
    using assms(1,2) concat_attributeStep_nonskip[of nv b a ks]
    by (simp add: analyzeAttributeChanges_maps)
  also have "\<dots> = concat (map (attributeStep nv b' a') (?f ks'))"
    unfolding assms(6) m ..
  also have "\<dots> = analyzeAttributeChanges nv ks' ch'"
    using assms(3,4) concat_attributeStep_nonskip[of nv b' a' ks']
    by (simp add: analyzeAttributeChanges_maps)
  finally show ?thesis .
qed

section \<open>Change classifier: buckets\<close>

text \<open>
  Claim C1. For every resource change, classification buckets it by its action set: both
  \<^verbatim>\<open>create\<close> and \<^verbatim>\<open>delete\<close> give Replace, with the replacement reason as force reason;
  otherwise \<^verbatim>\<open>create\<close> gives Create, otherwise \<^verbatim>\<open>update\<close> gives Update, otherwise
  \<^verbatim>\<open>delete\<close> gives Delete, with the deletion reason; anything else is dropped. Only the set
  of action strings matters, and a change lands in at most one bucket.

  For every input and every schedule, each bucket of the result holds, as a multiset,
  exactly the expected entries of the resource changes that \<open>bucketOfActions\<close> sends to it,
  and the four buckets together hold one entry for every change that is not dropped.
\<close>

theorem classification_buckets:
  "mset (Replace (analyzeResourceChanges nv sched rcs)) = mset (expectedBucket nv sched BReplace rcs)
   \<and> mset (Create (analyzeResourceChanges nv sched rcs)) = mset (expectedBucket nv sched BCreate rcs)
   \<and> mset (Update (analyzeResourceChanges nv sched rcs)) = mset (expectedBucket nv sched BUpdate rcs)
   \<and> mset (Delete (analyzeResourceChanges nv sched rcs)) = mset (expectedBucket nv sched BDelete rcs)
   \<and> length (Create (analyzeResourceChanges nv sched rcs))
       + length (Update (analyzeResourceChanges nv sched rcs))
       + length (Delete (analyzeResourceChanges nv sched rcs))
       + length (Replace (analyzeResourceChanges nv sched rcs))
     = length (filter (\<lambda>rc. bucketOfActions (set (Actions (Change rc))) \<noteq> None) rcs)"
proof -
  have "length (Create (analyzeResourceChanges nv sched rcs))
       + length (Update (analyzeResourceChanges nv sched rcs))
       + length (Delete (analyzeResourceChanges nv sched rcs))
       + length (Replace (analyzeResourceChanges nv sched rcs))
     = length (filter (\<lambda>rc. bucketOfActions (set (Actions (Change rc))) \<noteq> None) rcs)"
    using classifyLoop_total[of nv sched 0 rcs emptySummary]
    by (simp add: analyzeResourceChanges_def Let_def sortResourceDetails_length emptySummary_def)
  then show ?thesis
    by (simp add: analyzeResourceChanges_def Let_def sortResourceDetails_mset expectedBucket_def
        emptySummary_def classifyLoop_Create classifyLoop_Update classifyLoop_Delete
        classifyLoop_Replace)
qed

text \<open>
  A run on five resource changes with the action lists \<^verbatim>\<open>[delete, create]\<close>,
  \<^verbatim>\<open>[create]\<close>, \<^verbatim>\<open>[update]\<close>, \<^verbatim>\<open>[delete]\<close> and \<^verbatim>\<open>[no-op]\<close>.
\<close>

theorem classification_buckets_witness:
  "Replace (analyzeResourceChanges itoa (scheduleOf [([''name''], [''name'']), ([], []), ([''foo''], [''foo'']), ([], []), ([''foo''], [''foo''])])
      [\<lparr>Address = ''r1'', ModuleAddress = [], Mode = ''managed'', Type = ''aws_db_instance'', Name = ''r1'', ProviderName = ''aws'', Change = (\<lparr>Actions = [''delete'', ''create''], Before = JObj [(''name'', JStr ''old'')], After = JObj [(''name'', JStr ''new'')], AfterUnknown = JNull\<rparr> :: nat Change)\<rparr>,
       \<lparr>Address = ''c1'', ModuleAddress = [], Mode = ''managed'', Type = ''aws_db_instance'', Name = ''c1'', ProviderName = ''aws'', Change = (\<lparr>Actions = [''create''], Before = JNull, After = JObj [(''name'', JStr ''x'')], AfterUnknown = JNull\<rparr> :: nat Change)\<rparr>,
       \<lparr>Address = ''u1'', ModuleAddress = [], Mode = ''managed'', Type = ''aws_db_instance'', Name = ''u1'', ProviderName = ''aws'', Change = (\<lparr>Actions = [''update''], Before = JObj [(''foo'', JStr ''a'')], After = JObj [(''foo'', JStr ''b'')], AfterUnknown = JNull\<rparr> :: nat Change)\<rparr>,
       \<lparr>Address = ''d1'', ModuleAddress = [], Mode = ''managed'', Type = ''aws_db_instance'', Name = ''d1'', ProviderName = ''aws'', Change = (\<lparr>Actions = [''delete''], Before = JObj [(''name'', JStr ''db''), (''id'', JStr ''i-1''), (''engine'', JNull)], After = JNull, AfterUnknown = JNull\<rparr> :: nat Change)\<rparr>,
       \<lparr>Address = ''n1'', ModuleAddress = [], Mode = ''managed'', Type = ''aws_db_instance'', Name = ''n1'', ProviderName = ''aws'', Change = (\<lparr>Actions = [''no-op''], Before = JObj [(''foo'', JStr ''a'')], After = JObj [(''foo'', JStr ''a'')], AfterUnknown = JNull\<rparr> :: nat Change)\<rparr>]) =
     [\<lparr>detailAddress = ''r1'', Changes = [\<lparr>Attribute = ''name'', attrBefore = JStr ''old'', attrAfter = JStr ''new'', IsNew = False, IsRemoved = False\<rparr>], ForceReason = forcesReplacementMessage ''name'' ''old'' ''new''\<rparr>]
   \<and> Create (analyzeResourceChanges itoa (scheduleOf [([''name''], [''name'']), ([], []), ([''foo''], [''foo'']), ([], []), ([''foo''], [''foo''])])
      [\<lparr>Address = ''r1'', ModuleAddress = [], Mode = ''managed'', Type = ''aws_db_instance'', Name = ''r1'', ProviderName = ''aws'', Change = (\<lparr>Actions = [''delete'', ''create''], Before = JObj [(''name'', JStr ''old'')], After = JObj [(''name'', JStr ''new'')], AfterUnknown = JNull\<rparr> :: nat Change)\<rparr>,
       \<lparr>Address = ''c1'', ModuleAddress = [], Mode = ''managed'', Type = ''aws_db_instance'', Name = ''c1'', ProviderName = ''aws'', Change = (\<lparr>Actions = [''create''], Before = JNull, After = JObj [(''name'', JStr ''x'')], AfterUnknown = JNull\<rparr> :: nat Change)\<rparr>,
       \<lparr>Address = ''u1'', ModuleAddress = [], Mode = ''managed'', Type = ''aws_db_instance'', Name = ''u1'', ProviderName = ''aws'', Change = (\<lparr>Actions = [''update''], Before = JObj [(''foo'', JStr ''a'')], After = JObj [(''foo'', JStr ''b'')], AfterUnknown = JNull\<rparr> :: nat Change)\<rparr>,
       \<lparr>Address = ''d1'', ModuleAddress = [], Mode = ''managed'', Type = ''aws_db_instance'', Name = ''d1'', ProviderName = ''aws'', Change = (\<lparr>Actions = [''delete''], Before = JObj [(''name'', JStr ''db''), (''id'', JStr ''i-1''), (''engine'', JNull)], After = JNull, AfterUnknown = JNull\<rparr> :: nat Change)\<rparr>,
       \<lparr>Address = ''n1'', ModuleAddress = [], Mode = ''managed'', Type = ''aws_db_instance'', Name = ''n1'', ProviderName = ''aws'', Change = (\<lparr>Actions = [''no-op''], Before = JObj [(''foo'', JStr ''a'')], After = JObj [(''foo'', JStr ''a'')], AfterUnknown = JNull\<rparr> :: nat Change)\<rparr>]) =
     [\<lparr>detailAddress = ''c1'', Changes = [], ForceReason = []\<rparr>]
   \<and> Update (analyzeResourceChanges itoa (scheduleOf [([''name''], [''name'']), ([], []), ([''foo''], [''foo'']), ([], []), ([''foo''], [''foo''])])
      [\<lparr>Address = ''r1'', ModuleAddress = [], Mode = ''managed'', Type = ''aws_db_instance'', Name = ''r1'', ProviderName = ''aws'', Change = (\<lparr>Actions = [''delete'', ''create''], Before = JObj [(''name'', JStr ''old'')], After = JObj [(''name'', JStr ''new'')], AfterUnknown = JNull\<rparr> :: nat Change)\<rparr>,
       \<lparr>Address = ''c1'', ModuleAddress = [], Mode = ''managed'', Type = ''aws_db_instance'', Name = ''c1'', ProviderName = ''aws'', Change = (\<lparr>Actions = [''create''], Before = JNull, After = JObj [(''name'', JStr ''x'')], AfterUnknown = JNull\<rparr> :: nat Change)\<rparr>,
       \<lparr>Address = ''u1'', ModuleAddress = [], Mode = ''managed'', Type = ''aws_db_instance'', Name = ''u1'', ProviderName = ''aws'', Change = (\<lparr>Actions = [''update''], Before = JObj [(''foo'', JStr ''a'')], After = JObj [(''foo'', JStr ''b'')], AfterUnknown = JNull\<rparr> :: nat Change)\<rparr>,
       \<lparr>Address = ''d1'', ModuleAddress = [], Mode = ''managed'', Type = ''aws_db_instance'', Name = ''d1'', ProviderName = ''aws'', Change = (\<lparr>Actions = [''delete''], Before = JObj [(''name'', JStr ''db''), (''id'', JStr ''i-1''), (''engine'', JNull)], After = JNull, AfterUnknown = JNull\<rparr> :: nat Change)\<rparr>,
       \<lparr>Address = ''n1'', ModuleAddress = [], Mode = ''managed'', Type = ''aws_db_instance'', Name = ''n1'', ProviderName = ''aws'', Change = (\<lparr>Actions = [''no-op''], Before = JObj [(''foo'', JStr ''a'')], After = JObj [(''foo'', JStr ''a'')], AfterUnknown = JNull\<rparr> :: nat Change)\<rparr>]) =
     [\<lparr>detailAddress = ''u1'', Changes = [\<lparr>Attribute = ''foo'', attrBefore = JStr ''a'', attrAfter = JStr ''b'', IsNew = False, IsRemoved = False\<rparr>], ForceReason = []\<rparr>]
   \<and> Delete (analyzeResourceChanges itoa (scheduleOf [([''name''], [''name'']), ([], []), ([''foo''], [''foo'']), ([], []), ([''foo''], [''foo''])])
      [\<lparr>Address = ''r1'', ModuleAddress = [], Mode = ''managed'', Type = ''aws_db_instance'', Name = ''r1'', ProviderName = ''aws'', Change = (\<lparr>Actions = [''delete'', ''create''], Before = JObj [(''name'', JStr ''old'')], After = JObj [(''name'', JStr ''new'')], AfterUnknown = JNull\<rparr> :: nat Change)\<rparr>,
       \<lparr>Address = ''c1'', ModuleAddress = [], Mode = ''managed'', Type = ''aws_db_instance'', Name = ''c1'', ProviderName = ''aws'', Change = (\<lparr>Actions = [''create''], Before = JNull, After = JObj [(''name'', JStr ''x'')], AfterUnknown = JNull\<rparr> :: nat Change)\<rparr>,
       \<lparr>Address = ''u1'', ModuleAddress = [], Mode = ''managed'', Type = ''aws_db_instance'', Name = ''u1'', ProviderName = ''aws'', Change = (\<lparr>Actions = [''update''], Before = JObj [(''foo'', JStr ''a'')], After = JObj [(''foo'', JStr ''b'')], AfterUnknown = JNull\<rparr> :: nat Change)\<rparr>,
       \<lparr>Address = ''d1'', ModuleAddress = [], Mode = ''managed'', Type = ''aws_db_instance'', Name = ''d1'', ProviderName = ''aws'', Change = (\<lparr>Actions = [''delete''], Before = JObj [(''name'', JStr ''db''), (''id'', JStr ''i-1''), (''engine'', JNull)], After = JNull, AfterUnknown = JNull\<rparr> :: nat Change)\<rparr>,
       \<lparr>Address = ''n1'', ModuleAddress = [], Mode = ''managed'', Type = ''aws_db_instance'', Name = ''n1'', ProviderName = ''aws'', Change = (\<lparr>Actions = [''no-op''], Before = JObj [(''foo'', JStr ''a'')], After = JObj [(''foo'', JStr ''a'')], AfterUnknown = JNull\<rparr> :: nat Change)\<rparr>]) =
     [\<lparr>detailAddress = ''d1'', Changes = [], ForceReason = ''Resource with name: db, id: i-1''\<rparr>]"
  using classification_buckets[of itoa "(scheduleOf [([''name''], [''name'']), ([], []), ([''foo''], [''foo'']), ([], []), ([''foo''], [''foo''])])"
      "[\<lparr>Address = ''r1'', ModuleAddress = [], Mode = ''managed'', Type = ''aws_db_instance'', Name = ''r1'', ProviderName = ''aws'', Change = (\<lparr>Actions = [''delete'', ''create''], Before = JObj [(''name'', JStr ''old'')], After = JObj [(''name'', JStr ''new'')], AfterUnknown = JNull\<rparr> :: nat Change)\<rparr>,
       \<lparr>Address = ''c1'', ModuleAddress = [], Mode = ''managed'', Type = ''aws_db_instance'', Name = ''c1'', ProviderName = ''aws'', Change = (\<lparr>Actions = [''create''], Before = JNull, After = JObj [(''name'', JStr ''x'')], AfterUnknown = JNull\<rparr> :: nat Change)\<rparr>,
       \<lparr>Address = ''u1'', ModuleAddress = [], Mode = ''managed'', Type = ''aws_db_instance'', Name = ''u1'', ProviderName = ''aws'', Change = (\<lparr>Actions = [''update''], Before = JObj [(''foo'', JStr ''a'')], After = JObj [(''foo'', JStr ''b'')], AfterUnknown = JNull\<rparr> :: nat Change)\<rparr>,
       \<lparr>Address = ''d1'', ModuleAddress = [], Mode = ''managed'', Type = ''aws_db_instance'', Name = ''d1'', ProviderName = ''aws'', Change = (\<lparr>Actions = [''delete''], Before = JObj [(''name'', JStr ''db''), (''id'', JStr ''i-1''), (''engine'', JNull)], After = JNull, AfterUnknown = JNull\<rparr> :: nat Change)\<rparr>,
       \<lparr>Address = ''n1'', ModuleAddress = [], Mode = ''managed'', Type = ''aws_db_instance'', Name = ''n1'', ProviderName = ''aws'', Change = (\<lparr>Actions = [''no-op''], Before = JObj [(''foo'', JStr ''a'')], After = JObj [(''foo'', JStr ''a'')], AfterUnknown = JNull\<rparr> :: nat Change)\<rparr>]"]
  by (simp add: expectedBucket_def expectedDetail_def stepDetail_def bucketOfActions_def
      enumerate_eq_zip upt_rec scheduleOf_def forcesReplacementMessage_def Let_def
      determineReplaceReason_def forceReplaceAttrs_def determineDeleteReason_def keyAttrs_def
      analyzeAttributeChanges_def attributeStep_def shouldSkipAttribute_def skipAttributes_def
      deepEqual_def)

section \<open>Replacement reason\<close>

text \<open>
  Claim C2. For every change classified as Replace whose attribute diff contains a key of
  the list \<^verbatim>\<open>name, family, engine, vpc_id, availability_zone\<close>, the replacement reason
  names the first such key in the order of the list and reads
  \<^verbatim>\<open>Attribute '<attr>' changed from '<before>' to '<after>' (forces replacement)\<close>; a
  non-empty diff without such a key gives \<^verbatim>\<open>Multiple attribute changes require replacement\<close>,
  an empty diff \<^verbatim>\<open>Resource configuration requires replacement\<close>.

  The outer loop of \<^verbatim>\<open>determineReplaceReason\<close> runs over the diff and the inner one over
  the list, so the reason names the first record of the diff whose key is in the list,
  whatever the position of that key in the list. When \<^verbatim>\<open>range allKeys\<close> yields
  \<^verbatim>\<open>engine\<close> before \<^verbatim>\<open>name\<close>, the diff of the change below lists both and the reason
  names \<^verbatim>\<open>engine\<close>, although \<^verbatim>\<open>name\<close> comes first in the list.
\<close>

theorem replace_reason_priority_counterexample:
  "rangeOrder [''engine'', ''name'']
      (\<lparr>Actions = [''create'', ''delete''], Before = JObj [(''name'', JStr ''old''), (''engine'', JStr ''mysql'')], After = JObj [(''name'', JStr ''new''), (''engine'', JStr ''postgres'')], AfterUnknown = JNull\<rparr> :: nat Change)
   \<and> analyzeAttributeChanges itoa [''engine'', ''name'']
      (\<lparr>Actions = [''create'', ''delete''], Before = JObj [(''name'', JStr ''old''), (''engine'', JStr ''mysql'')], After = JObj [(''name'', JStr ''new''), (''engine'', JStr ''postgres'')], AfterUnknown = JNull\<rparr> :: nat Change) =
     [\<lparr>Attribute = ''engine'', attrBefore = JStr ''mysql'', attrAfter = JStr ''postgres'', IsNew = False, IsRemoved = False\<rparr>,
      \<lparr>Attribute = ''name'', attrBefore = JStr ''old'', attrAfter = JStr ''new'', IsNew = False, IsRemoved = False\<rparr>]
   \<and> determineReplaceReason itoa [''engine'', ''name'']
      (\<lparr>Actions = [''create'', ''delete''], Before = JObj [(''name'', JStr ''old''), (''engine'', JStr ''mysql'')], After = JObj [(''name'', JStr ''new''), (''engine'', JStr ''postgres'')], AfterUnknown = JNull\<rparr> :: nat Change) =
     forcesReplacementMessage ''engine'' ''mysql'' ''postgres''
   \<and> determineReplaceReason itoa [''engine'', ''name'']
      (\<lparr>Actions = [''create'', ''delete''], Before = JObj [(''name'', JStr ''old''), (''engine'', JStr ''mysql'')], After = JObj [(''name'', JStr ''new''), (''engine'', JStr ''postgres'')], AfterUnknown = JNull\<rparr> :: nat Change) \<noteq>
     forcesReplacementMessage ''name'' ''old'' ''new''"
proof -
  have "rangeOrder [''engine'', ''name'']
      (\<lparr>Actions = [''create'', ''delete''], Before = JObj [(''name'', JStr ''old''), (''engine'', JStr ''mysql'')], After = JObj [(''name'', JStr ''new''), (''engine'', JStr ''postgres'')], AfterUnknown = JNull\<rparr> :: nat Change)"
    by (auto simp: rangeOrder_def)
  then show ?thesis
    by (simp add: determineReplaceReason_def forceReplaceAttrs_def forcesReplacementMessage_def
      analyzeAttributeChanges_def attributeStep_def shouldSkipAttribute_def skipAttributes_def
      deepEqual_def)
qed

text \<open>
  Claim C2, amended. The replacement reason names the first record of the attribute diff,
  in the diff's own order, whose key is in the list, and reads
  \<^verbatim>\<open>Attribute '<attr>' changed from '<before>' to '<after>' (forces replacement)\<close> with the
  \<^verbatim>\<open>%v\<close> renderings of that record's values; if the diff is not empty and has no such
  record the reason is \<^verbatim>\<open>Multiple attribute changes require replacement\<close>; if the diff is
  empty it is \<^verbatim>\<open>Resource configuration requires replacement\<close>.
\<close>

theorem replace_reason_first_listed_change:
  "determineReplaceReason nv ks ch =
     (case find (\<lambda>c. Attribute c \<in> set [''name'', ''family'', ''engine'', ''vpc_id'',
                                           ''availability_zone''])
             (analyzeAttributeChanges nv ks ch) of
        Some c \<Rightarrow> forcesReplacementMessage (Attribute c) (sprintv nv (attrBefore c))
                    (sprintv nv (attrAfter c))
      | None \<Rightarrow>
          if analyzeAttributeChanges nv ks ch \<noteq> []
          then ''Multiple attribute changes require replacement''
          else ''Resource configuration requires replacement'')"
  by (simp add: determineReplaceReason_def Let_def replaceOuter_eq forceReplaceAttrs_def
      split: option.split)

theorem replace_reason_first_listed_change_witness:
  "determineReplaceReason itoa [''name'', ''engine'']
      (\<lparr>Actions = [''create'', ''delete''], Before = JObj [(''name'', JStr ''old''), (''engine'', JStr ''mysql'')], After = JObj [(''name'', JStr ''new''), (''engine'', JStr ''postgres'')], AfterUnknown = JNull\<rparr> :: nat Change) =
     forcesReplacementMessage ''name'' ''old'' ''new''
   \<and> determineReplaceReason itoa [''engine'', ''name'']
      (\<lparr>Actions = [''create'', ''delete''], Before = JObj [(''name'', JStr ''old''), (''engine'', JStr ''mysql'')], After = JObj [(''name'', JStr ''new''), (''engine'', JStr ''postgres'')], AfterUnknown = JNull\<rparr> :: nat Change) =
     forcesReplacementMessage ''engine'' ''mysql'' ''postgres''
   \<and> determineReplaceReason itoa [''size'']
      (\<lparr>Actions = [''create'', ''delete''], Before = JObj [(''size'', JNum 10)], After = JObj [(''size'', JNum 20)], AfterUnknown = JNull\<rparr> :: nat Change) =
     ''Multiple attribute changes require replacement''
   \<and> determineReplaceReason itoa [''size'']
      (\<lparr>Actions = [''create'', ''delete''], Before = JObj [(''size'', JNum 10)], After = JObj [(''size'', JNum 10)], AfterUnknown = JNull\<rparr> :: nat Change) =
     ''Resource configuration requires replacement''"
  using replace_reason_first_listed_change[of itoa "[''name'', ''engine'']"
      "(\<lparr>Actions = [''create'', ''delete''], Before = JObj [(''name'', JStr ''old''), (''engine'', JStr ''mysql'')], After = JObj [(''name'', JStr ''new''), (''engine'', JStr ''postgres'')], AfterUnknown = JNull\<rparr> :: nat Change)"]
    replace_reason_first_listed_change[of itoa "[''engine'', ''name'']"
      "(\<lparr>Actions = [''create'', ''delete''], Before = JObj [(''name'', JStr ''old''), (''engine'', JStr ''mysql'')], After = JObj [(''name'', JStr ''new''), (''engine'', JStr ''postgres'')], AfterUnknown = JNull\<rparr> :: nat Change)"]
    replace_reason_first_listed_change[of itoa "[''size'']"
      "(\<lparr>Actions = [''create'', ''delete''], Before = JObj [(''size'', JNum 10)], After = JObj [(''size'', JNum 20)], AfterUnknown = JNull\<rparr> :: nat Change)"]
    replace_reason_first_listed_change[of itoa "[''size'']"
      "(\<lparr>Actions = [''create'', ''delete''], Before = JObj [(''size'', JNum 10)], After = JObj [(''size'', JNum 10)], AfterUnknown = JNull\<rparr> :: nat Change)"]
  by (simp add: digit_def
      analyzeAttributeChanges_def attributeStep_def shouldSkipAttribute_def skipAttributes_def
      deepEqual_def)

section \<open>Attribute differ\<close>

text \<open>
  Claim C3. The attribute differ returns an empty list when \<^verbatim>\<open>before\<close> or \<^verbatim>\<open>after\<close> is not
  a string-keyed mapping. When both are mappings, for each key of their union outside the
  skip-set: a key only in \<^verbatim>\<open>after\<close> yields one record with \<^verbatim>\<open>is_new\<close> set and a null
  \<^verbatim>\<open>before\<close>; a key only in \<^verbatim>\<open>before\<close> yields one record with \<^verbatim>\<open>is_removed\<close> set and a
  null \<^verbatim>\<open>after\<close>; a key in both yields a plain record exactly when the \<^verbatim>\<open>%v\<close> renderings
  of the two values differ, and no record otherwise. Every record's key is a key of one of
  the mappings, and no record has both flags set.

  The records for a key are the records of the result with that attribute name, in order;
  the iteration order is any order that \<open>rangeOrder\<close> admits.
\<close>

theorem attribute_differ_cases:
  "(((\<forall>m. Before ch \<noteq> JObj m) \<or> (\<forall>m. After ch \<noteq> JObj m)) \<longrightarrow>
       analyzeAttributeChanges nv ks ch = [])
   \<and> (Before ch = JObj b \<and> After ch = JObj a \<and> rangeOrder ks ch \<and> \<not> shouldSkipAttribute k \<longrightarrow>
        (map_of b k = None \<and> map_of a k = Some av \<longrightarrow>
           filter (\<lambda>c. Attribute c = k) (analyzeAttributeChanges nv ks ch) =
             [\<lparr>Attribute = k, attrBefore = JNull, attrAfter = av, IsNew = True, IsRemoved = False\<rparr>])
      \<and> (map_of b k = Some bv \<and> map_of a k = None \<longrightarrow>
           filter (\<lambda>c. Attribute c = k) (analyzeAttributeChanges nv ks ch) =
             [\<lparr>Attribute = k, attrBefore = bv, attrAfter = JNull, IsNew = False, IsRemoved = True\<rparr>])
      \<and> (map_of b k = Some bv \<and> map_of a k = Some av \<and> sprintv nv bv \<noteq> sprintv nv av \<longrightarrow>
           filter (\<lambda>c. Attribute c = k) (analyzeAttributeChanges nv ks ch) =
             [\<lparr>Attribute = k, attrBefore = bv, attrAfter = av, IsNew = False, IsRemoved = False\<rparr>])
      \<and> (map_of b k = Some bv \<and> map_of a k = Some av \<and> sprintv nv bv = sprintv nv av \<longrightarrow>
           filter (\<lambda>c. Attribute c = k) (analyzeAttributeChanges nv ks ch) = []))
   \<and> (Before ch = JObj b \<and> After ch = JObj a \<longrightarrow>
        (\<forall>c \<in> set (analyzeAttributeChanges nv ks ch).
           Attribute c \<in> set (map fst b) \<union> set (map fst a)))
   \<and> (\<forall>c \<in> set (analyzeAttributeChanges nv ks ch). \<not> (IsNew c \<and> IsRemoved c))"
proof (intro conjI impI)
  assume "(\<forall>m. Before ch \<noteq> JObj m) \<or> (\<forall>m. After ch \<noteq> JObj m)"
  then show "analyzeAttributeChanges nv ks ch = []"
    by (rule analyzeAttributeChanges_not_maps)
next
  show "\<forall>c \<in> set (analyzeAttributeChanges nv ks ch). \<not> (IsNew c \<and> IsRemoved c)"
    by (auto dest!: analyzeAttributeChanges_member attributeStep_member)
next
  assume ba: "Before ch = JObj b \<and> After ch = JObj a"
  show "\<forall>c \<in> set (analyzeAttributeChanges nv ks ch).
      Attribute c \<in> set (map fst b) \<union> set (map fst a)"
  proof
    fix c assume "c \<in> set (analyzeAttributeChanges nv ks ch)"
    with ba have "c \<in> set (attributeStep nv b a (Attribute c))"
      by (auto dest: analyzeAttributeChanges_member)
    then have "map_of b (Attribute c) \<noteq> None \<or> map_of a (Attribute c) \<noteq> None"
      by (auto dest: attributeStep_member)
    then show "Attribute c \<in> set (map fst b) \<union> set (map fst a)"
      by (auto simp: map_of_eq_None_iff)
  qed
qed (simp_all add: analyzeAttributeChanges_filter attributeStep_def deepEqual_def)

text \<open>
  One change with a removed key \<^verbatim>\<open>a\<close>, a changed key \<^verbatim>\<open>b\<close>, a new key \<^verbatim>\<open>c\<close>, and a key
  \<^verbatim>\<open>d\<close> that holds the string \<^verbatim>\<open>7\<close> before and the number 7 after, which print alike;
  and a creation, whose \<^verbatim>\<open>before\<close> is null.
\<close>

theorem attribute_differ_cases_witness:
  "rangeOrder [''a'', ''b'', ''c'', ''d'', ''id'']
      (\<lparr>Actions = [''update''], Before = JObj [(''a'', JStr ''1''), (''b'', JStr ''x''), (''d'', JStr ''7''), (''id'', JStr ''i-1'')], After = JObj [(''b'', JStr ''y''), (''c'', JStr ''2''), (''d'', JNum 7), (''id'', JStr ''i-2'')], AfterUnknown = JNull\<rparr> :: nat Change)
   \<and> filter (\<lambda>c. Attribute c = ''a'') (analyzeAttributeChanges itoa [''a'', ''b'', ''c'', ''d'', ''id'']
      (\<lparr>Actions = [''update''], Before = JObj [(''a'', JStr ''1''), (''b'', JStr ''x''), (''d'', JStr ''7''), (''id'', JStr ''i-1'')], After = JObj [(''b'', JStr ''y''), (''c'', JStr ''2''), (''d'', JNum 7), (''id'', JStr ''i-2'')], AfterUnknown = JNull\<rparr> :: nat Change)) =
     [\<lparr>Attribute = ''a'', attrBefore = JStr ''1'', attrAfter = JNull, IsNew = False, IsRemoved = True\<rparr>]
   \<and> filter (\<lambda>c. Attribute c = ''b'') (analyzeAttributeChanges itoa [''a'', ''b'', ''c'', ''d'', ''id'']
      (\<lparr>Actions = [''update''], Before = JObj [(''a'', JStr ''1''), (''b'', JStr ''x''), (''d'', JStr ''7''), (''id'', JStr ''i-1'')], After = JObj [(''b'', JStr ''y''), (''c'', JStr ''2''), (''d'', JNum 7), (''id'', JStr ''i-2'')], AfterUnknown = JNull\<rparr> :: nat Change)) =
     [\<lparr>Attribute = ''b'', attrBefore = JStr ''x'', attrAfter = JStr ''y'', IsNew = False, IsRemoved = False\<rparr>]
   \<and> filter (\<lambda>c. Attribute c = ''c'') (analyzeAttributeChanges itoa [''a'', ''b'', ''c'', ''d'', ''id'']
      (\<lparr>Actions = [''update''], Before = JObj [(''a'', JStr ''1''), (''b'', JStr ''x''), (''d'', JStr ''7''), (''id'', JStr ''i-1'')], After = JObj [(''b'', JStr ''y''), (''c'', JStr ''2''), (''d'', JNum 7), (''id'', JStr ''i-2'')], AfterUnknown = JNull\<rparr> :: nat Change)) =
     [\<lparr>Attribute = ''c'', attrBefore = JNull, attrAfter = JStr ''2'', IsNew = True, IsRemoved = False\<rparr>]
   \<and> filter (\<lambda>c. Attribute c = ''d'') (analyzeAttributeChanges itoa [''a'', ''b'', ''c'', ''d'', ''id'']
      (\<lparr>Actions = [''update''], Before = JObj [(''a'', JStr ''1''), (''b'', JStr ''x''), (''d'', JStr ''7''), (''id'', JStr ''i-1'')], After = JObj [(''b'', JStr ''y''), (''c'', JStr ''2''), (''d'', JNum 7), (''id'', JStr ''i-2'')], AfterUnknown = JNull\<rparr> :: nat Change)) = []
   \<and> analyzeAttributeChanges itoa [''a'', ''b'', ''c'', ''d'', ''id'']
      (\<lparr>Actions = [''create''], Before = JNull, After = JObj [(''b'', JStr ''y''), (''c'', JStr ''2''), (''d'', JNum 7), (''id'', JStr ''i-2'')], AfterUnknown = JNull\<rparr> :: nat Change) = []"
proof -
  have r: "rangeOrder [''a'', ''b'', ''c'', ''d'', ''id'']
      (\<lparr>Actions = [''update''], Before = JObj [(''a'', JStr ''1''), (''b'', JStr ''x''), (''d'', JStr ''7''), (''id'', JStr ''i-1'')], After = JObj [(''b'', JStr ''y''), (''c'', JStr ''2''), (''d'', JNum 7), (''id'', JStr ''i-2'')], AfterUnknown = JNull\<rparr> :: nat Change)"
    by (auto simp: rangeOrder_def)
  show ?thesis
    using r attribute_differ_cases[where nv = itoa and ks = "[''a'', ''b'', ''c'', ''d'', ''id'']"
      and ch = "(\<lparr>Actions = [''update''], Before = JObj [(''a'', JStr ''1''), (''b'', JStr ''x''), (''d'', JStr ''7''), (''id'', JStr ''i-1'')], After = JObj [(''b'', JStr ''y''), (''c'', JStr ''2''), (''d'', JNum 7), (''id'', JStr ''i-2'')], AfterUnknown = JNull\<rparr> :: nat Change)"
      and b = "[(''a'', JStr ''1''), (''b'', JStr ''x''), (''d'', JStr ''7''), (''id'', JStr ''i-1'')]"
      and a = "[(''b'', JStr ''y''), (''c'', JStr ''2''), (''d'', JNum 7), (''id'', JStr ''i-2'')]"
      and k = "''a''" and av = "JNull" and bv = "JStr ''1''"]
      attribute_differ_cases[where nv = itoa and ks = "[''a'', ''b'', ''c'', ''d'', ''id'']"
      and ch = "(\<lparr>Actions = [''update''], Before = JObj [(''a'', JStr ''1''), (''b'', JStr ''x''), (''d'', JStr ''7''), (''id'', JStr ''i-1'')], After = JObj [(''b'', JStr ''y''), (''c'', JStr ''2''), (''d'', JNum 7), (''id'', JStr ''i-2'')], AfterUnknown = JNull\<rparr> :: nat Change)"
      and b = "[(''a'', JStr ''1''), (''b'', JStr ''x''), (''d'', JStr ''7''), (''id'', JStr ''i-1'')]"
      and a = "[(''b'', JStr ''y''), (''c'', JStr ''2''), (''d'', JNum 7), (''id'', JStr ''i-2'')]"
      and k = "''b''" and av = "JStr ''y''" and bv = "JStr ''x''"]
      attribute_differ_cases[where nv = itoa and ks = "[''a'', ''b'', ''c'', ''d'', ''id'']"
      and ch = "(\<lparr>Actions = [''update''], Before = JObj [(''a'', JStr ''1''), (''b'', JStr ''x''), (''d'', JStr ''7''), (''id'', JStr ''i-1'')], After = JObj [(''b'', JStr ''y''), (''c'', JStr ''2''), (''d'', JNum 7), (''id'', JStr ''i-2'')], AfterUnknown = JNull\<rparr> :: nat Change)"
      and b = "[(''a'', JStr ''1''), (''b'', JStr ''x''), (''d'', JStr ''7''), (''id'', JStr ''i-1'')]"
      and a = "[(''b'', JStr ''y''), (''c'', JStr ''2''), (''d'', JNum 7), (''id'', JStr ''i-2'')]"
      and k = "''c''" and av = "JStr ''2''" and bv = "JNull"]
      attribute_differ_cases[where nv = itoa and ks = "[''a'', ''b'', ''c'', ''d'', ''id'']"
      and ch = "(\<lparr>Actions = [''update''], Before = JObj [(''a'', JStr ''1''), (''b'', JStr ''x''), (''d'', JStr ''7''), (''id'', JStr ''i-1'')], After = JObj [(''b'', JStr ''y''), (''c'', JStr ''2''), (''d'', JNum 7), (''id'', JStr ''i-2'')], AfterUnknown = JNull\<rparr> :: nat Change)"
      and b = "[(''a'', JStr ''1''), (''b'', JStr ''x''), (''d'', JStr ''7''), (''id'', JStr ''i-1'')]"
      and a = "[(''b'', JStr ''y''), (''c'', JStr ''2''), (''d'', JNum 7), (''id'', JStr ''i-2'')]"
      and k = "''d''" and av = "JNum 7" and bv = "JStr ''7''"]
      attribute_differ_cases[where nv = itoa and ks = "[''a'', ''b'', ''c'', ''d'', ''id'']"
      and ch = "(\<lparr>Actions = [''create''], Before = JNull, After = JObj [(''b'', JStr ''y''), (''c'', JStr ''2''), (''d'', JNum 7), (''id'', JStr ''i-2'')], AfterUnknown = JNull\<rparr> :: nat Change)"]
    by (simp add: shouldSkipAttribute_def skipAttributes_def digit_def)
qed

section \<open>Skip-set\<close>

text \<open>
  Claim C4. No attribute change whose key is \<^verbatim>\<open>id\<close>, \<^verbatim>\<open>arn\<close>, \<^verbatim>\<open>tags_all\<close> or
  \<^verbatim>\<open>timeouts\<close> appears in a produced attribute-change list or in the rendered Markdown, of
  the single-plan and of the multi-plan renderer, whatever the attribute's values.

  The theorem covers every list that the differ returns, under any iteration order, and
  every entry of every bucket of \<^verbatim>\<open>analyzeResourceChanges\<close>. Both renderers print attribute
  changes from the \<open>Changes\<close> of these entries only; accordingly the Markdown of a plan, and
  the section that the multi-plan renderer writes for an environment, are what they would
  be with all skip-set records taken out of the summary first.
\<close>

theorem skip_set_never_reported:
  "(\<forall>c \<in> set (analyzeAttributeChanges nv ks ch).
      Attribute c \<notin> {''id'', ''arn'', ''tags_all'', ''timeouts''})
   \<and> (\<forall>d \<in> set (Create (analyzeResourceChanges nv sched rcs))
           \<union> set (Update (analyzeResourceChanges nv sched rcs))
           \<union> set (Delete (analyzeResourceChanges nv sched rcs))
           \<union> set (Replace (analyzeResourceChanges nv sched rcs)).
        \<forall>c \<in> set (Changes d). Attribute c \<notin> {''id'', ''arn'', ''tags_all'', ''timeouts''})
   \<and> generateMarkdownComment nv sched plan =
       markdownOfSummary nv (dropSkipped (analyzeResourceChanges nv sched (ResourceChanges plan)))
         (TerraformVersion plan)
   \<and> envMarkdown (analyzeResourceChanges nv sched rcs) path =
       envMarkdown (dropSkipped (analyzeResourceChanges nv sched rcs)) path"
proof (intro conjI ballI)
  fix c assume "c \<in> set (analyzeAttributeChanges nv ks ch)"
  then show "Attribute c \<notin> {''id'', ''arn'', ''tags_all'', ''timeouts''}"
    by (rule analyzeAttributeChanges_no_skip)
next
  fix d c
  assume "d \<in> set (Create (analyzeResourceChanges nv sched rcs))
           \<union> set (Update (analyzeResourceChanges nv sched rcs))
           \<union> set (Delete (analyzeResourceChanges nv sched rcs))
           \<union> set (Replace (analyzeResourceChanges nv sched rcs))"
    and "c \<in> set (Changes d)"
  then show "Attribute c \<notin> {''id'', ''arn'', ''tags_all'', ''timeouts''}"
    by (rule bucket_member_no_skip)
next
  show "generateMarkdownComment nv sched plan =
       markdownOfSummary nv (dropSkipped (analyzeResourceChanges nv sched (ResourceChanges plan)))
         (TerraformVersion plan)"
    by (simp add: generateMarkdownComment_def dropSkipped_analyzeResourceChanges)
next
  show "envMarkdown (analyzeResourceChanges nv sched rcs) path =
       envMarkdown (dropSkipped (analyzeResourceChanges nv sched rcs)) path"
    by (simp add: dropSkipped_analyzeResourceChanges)
qed

text \<open>
  An update that changes \<^verbatim>\<open>id\<close>, \<^verbatim>\<open>arn\<close>, \<^verbatim>\<open>tags_all\<close> and \<^verbatim>\<open>name\<close> and drops
  \<^verbatim>\<open>timeouts\<close>: only \<^verbatim>\<open>name\<close> is reported.
\<close>

theorem skip_set_never_reported_witness:
  "analyzeAttributeChanges itoa [''arn'', ''id'', ''name'', ''tags_all'', ''timeouts'']
      (\<lparr>Actions = [''update''], Before = JObj [(''id'', JStr ''i-1''), (''arn'', JStr ''arn:1''), (''name'', JStr ''old''), (''tags_all'', JObj []), (''timeouts'', JNull)], After = JObj [(''id'', JStr ''i-2''), (''arn'', JStr ''arn:2''), (''name'', JStr ''new''), (''tags_all'', JObj [(''env'', JStr ''x'')])], AfterUnknown = JNull\<rparr> :: nat Change) =
     [\<lparr>Attribute = ''name'', attrBefore = JStr ''old'', attrAfter = JStr ''new'', IsNew = False, IsRemoved = False\<rparr>]
   \<and> Update (analyzeResourceChanges itoa (scheduleOf [([''arn'', ''id'', ''name'', ''tags_all'', ''timeouts''], [''arn'', ''id'', ''name'', ''tags_all'', ''timeouts''])])
      [\<lparr>Address = ''aws_db_instance.main'', ModuleAddress = [], Mode = ''managed'', Type = ''aws_db_instance'', Name = ''aws_db_instance.main'', ProviderName = ''aws'', Change = (\<lparr>Actions = [''update''], Before = JObj [(''id'', JStr ''i-1''), (''arn'', JStr ''arn:1''), (''name'', JStr ''old''), (''tags_all'', JObj []), (''timeouts'', JNull)], After = JObj [(''id'', JStr ''i-2''), (''arn'', JStr ''arn:2''), (''name'', JStr ''new''), (''tags_all'', JObj [(''env'', JStr ''x'')])], AfterUnknown = JNull\<rparr> :: nat Change)\<rparr>]) =
     [\<lparr>detailAddress = ''aws_db_instance.main'', Changes = [\<lparr>Attribute = ''name'', attrBefore = JStr ''old'', attrAfter = JStr ''new'', IsNew = False, IsRemoved = False\<rparr>], ForceReason = []\<rparr>]
   \<and> ''name'' \<notin> {''id'', ''arn'', ''tags_all'', ''timeouts''}"
  using skip_set_never_reported[where nv = itoa and ks = "[''arn'', ''id'', ''name'', ''tags_all'', ''timeouts'']"
      and ch = "(\<lparr>Actions = [''update''], Before = JObj [(''id'', JStr ''i-1''), (''arn'', JStr ''arn:1''), (''name'', JStr ''old''), (''tags_all'', JObj []), (''timeouts'', JNull)], After = JObj [(''id'', JStr ''i-2''), (''arn'', JStr ''arn:2''), (''name'', JStr ''new''), (''tags_all'', JObj [(''env'', JStr ''x'')])], AfterUnknown = JNull\<rparr> :: nat Change)"
      and sched = "(scheduleOf [([''arn'', ''id'', ''name'', ''tags_all'', ''timeouts''], [''arn'', ''id'', ''name'', ''tags_all'', ''timeouts''])])"
      and rcs = "[\<lparr>Address = ''aws_db_instance.main'', ModuleAddress = [], Mode = ''managed'', Type = ''aws_db_instance'', Name = ''aws_db_instance.main'', ProviderName = ''aws'', Change = (\<lparr>Actions = [''update''], Before = JObj [(''id'', JStr ''i-1''), (''arn'', JStr ''arn:1''), (''name'', JStr ''old''), (''tags_all'', JObj []), (''timeouts'', JNull)], After = JObj [(''id'', JStr ''i-2''), (''arn'', JStr ''arn:2''), (''name'', JStr ''new''), (''tags_all'', JObj [(''env'', JStr ''x'')])], AfterUnknown = JNull\<rparr> :: nat Change)\<rparr>]"]
  by (simp add: analyzeResourceChanges_def classifyChange_def emptySummary_def sortResourceDetails_def
      scheduleOf_def Let_def analyzeAttributeChanges_def attributeStep_def shouldSkipAttribute_def skipAttributes_def
      deepEqual_def)

section \<open>Deletion reason\<close>

text \<open>
  Claim C5. The deletion reason is \<^verbatim>\<open>Resource marked for deletion\<close> when \<^verbatim>\<open>before\<close> is not
  a mapping. Otherwise it collects, in the order \<^verbatim>\<open>name, id, family, engine\<close>, every key
  that \<^verbatim>\<open>before\<close> holds with a value other than null, as \<^verbatim>\<open><key>: <value>\<close>, and returns
  \<^verbatim>\<open>Resource with\<close> followed by the comma-joined list if there is at least one such key, else
  \<^verbatim>\<open>Resource marked for deletion\<close>. The result is never the empty string.
\<close>

theorem delete_reason_cases:
  "((\<forall>m. Before ch \<noteq> JObj m) \<longrightarrow> determineDeleteReason nv ch = ''Resource marked for deletion'')
   \<and> (Before ch = JObj m \<longrightarrow>
        determineDeleteReason nv ch =
          (let found = filter (\<lambda>k. map_of m k \<noteq> None \<and> map_of m k \<noteq> Some JNull)
                         [''name'', ''id'', ''family'', ''engine'']
           in if found \<noteq> []
              then ''Resource with ''
                   @ join '', '' (map (\<lambda>k. k @ '': '' @ sprintv nv (the (map_of m k))) found)
              else ''Resource marked for deletion''))
   \<and> determineDeleteReason nv ch \<noteq> []"
proof (intro conjI impI)
  assume "\<forall>m. Before ch \<noteq> JObj m"
  then show "determineDeleteReason nv ch = ''Resource marked for deletion''"
    by (cases "Before ch") (auto simp: determineDeleteReason_def)
next
  assume "Before ch = JObj m"
  then show "determineDeleteReason nv ch =
          (let found = filter (\<lambda>k. map_of m k \<noteq> None \<and> map_of m k \<noteq> Some JNull)
                         [''name'', ''id'', ''family'', ''engine'']
           in if found \<noteq> []
              then ''Resource with ''
                   @ join '', '' (map (\<lambda>k. k @ '': '' @ sprintv nv (the (map_of m k))) found)
              else ''Resource marked for deletion'')"
    unfolding determineDeleteReason_def deleteIdentifiers_eq keyAttrs_def Let_def
    by simp
next
  show "determineDeleteReason nv ch \<noteq> []"
    by (cases "Before ch") (auto simp: determineDeleteReason_def Let_def)
qed

theorem delete_reason_cases_witness:
  "determineDeleteReason itoa
      (\<lparr>Actions = [''delete''], Before = JObj [(''name'', JStr ''db''), (''id'', JStr ''i-1''), (''engine'', JNull), (''size'', JNum 20)], After = JNull, AfterUnknown = JNull\<rparr> :: nat Change) = ''Resource with name: db, id: i-1''
   \<and> determineDeleteReason itoa
      (\<lparr>Actions = [''delete''], Before = JNull, After = JNull, AfterUnknown = JNull\<rparr> :: nat Change) = ''Resource marked for deletion''
   \<and> determineDeleteReason itoa
      (\<lparr>Actions = [''delete''], Before = JObj [(''size'', JNum 20)], After = JNull, AfterUnknown = JNull\<rparr> :: nat Change) = ''Resource marked for deletion''"
  using delete_reason_cases[of "(\<lparr>Actions = [''delete''], Before = JObj [(''name'', JStr ''db''), (''id'', JStr ''i-1''), (''engine'', JNull), (''size'', JNum 20)], After = JNull, AfterUnknown = JNull\<rparr> :: nat Change)" itoa
      "[(''name'', JStr ''db''), (''id'', JStr ''i-1''), (''engine'', JNull), (''size'', JNum 20)]"]
    delete_reason_cases[of "(\<lparr>Actions = [''delete''], Before = JNull, After = JNull, AfterUnknown = JNull\<rparr> :: nat Change)" itoa]
    delete_reason_cases[of "(\<lparr>Actions = [''delete''], Before = JObj [(''size'', JNum 20)], After = JNull, AfterUnknown = JNull\<rparr> :: nat Change)" itoa
      "[(''size'', JNum 20)]"]
  by simp

section \<open>Value formatting\<close>

text \<open>
  Claim C6. The formatter returns \<^verbatim>\<open>(null)\<close> for null, \<^verbatim>\<open>(empty)\<close> for the empty string, a
  non-empty string between double quotes, \<^verbatim>\<open>[]\<close> for an empty sequence, \<^verbatim>\<open>[<n> items]\<close>
  for a sequence of \<open>n > 0\<close> elements, \<^verbatim>\<open>{}\<close> for an empty mapping, \<^verbatim>\<open>{<n> keys}\<close> for a
  mapping of \<open>n > 0\<close> keys, and the \<^verbatim>\<open>%v\<close> rendering of anything else.
\<close>

theorem format_value_cases:
  "formatAttributeValue nv JNull = ''(null)''
   \<and> formatAttributeValue nv (JStr []) = ''(empty)''
   \<and> (s \<noteq> [] \<longrightarrow> formatAttributeValue nv (JStr s) = dquote @ s @ dquote)
   \<and> formatAttributeValue nv (JArr []) = ''[]''
   \<and> (xs \<noteq> [] \<longrightarrow> formatAttributeValue nv (JArr xs) = ''['' @ itoa (length xs) @ '' items]'')
   \<and> formatAttributeValue nv (JObj []) = ''{}''
   \<and> (kvs \<noteq> [] \<and> distinct (map fst kvs) \<longrightarrow>
        formatAttributeValue nv (JObj kvs) = ''{'' @ itoa (card (dom (map_of kvs))) @ '' keys}'')
   \<and> formatAttributeValue nv (JBool b) = sprintv nv (JBool b)
   \<and> formatAttributeValue nv (JNum n) = sprintv nv (JNum n)"
  by (auto simp: card_keys simp del: itoa.simps)

text \<open>The cases of \<^verbatim>\<open>TestFormatAttributeValue\<close>, and a boolean.\<close>

theorem format_value_cases_witness:
  "formatAttributeValue itoa JNull = ''(null)''
   \<and> formatAttributeValue itoa (JStr []) = ''(empty)''
   \<and> formatAttributeValue itoa (JStr ''test'') = dquote @ ''test'' @ dquote
   \<and> formatAttributeValue itoa (JArr []) = ''[]''
   \<and> formatAttributeValue itoa (JArr [JNum 1, JNum 2, JNum 3]) = ''[3 items]''
   \<and> formatAttributeValue itoa (JObj []) = ''{}''
   \<and> formatAttributeValue itoa (JObj [(''key'', JStr ''value'')]) = ''{1 keys}''
   \<and> formatAttributeValue itoa (JNum 42) = ''42''
   \<and> formatAttributeValue itoa (JBool True) = ''true''"
  using format_value_cases[of itoa "''test''" "[JNum 1, JNum 2, JNum 3]"
      "[(''key'', JStr ''value'')]" True 42]
  by (simp add: digit_def)

section \<open>Order of the buckets\<close>

text \<open>
  Claim C7. After classification each of the four buckets is sorted by address in
  ascending lexicographic string order: for every bucket and all indices \<open>i < j\<close>, the
  address at \<open>i\<close> is at most the address at \<open>j\<close>.
\<close>

theorem buckets_sorted:
  "\<forall>b \<in> {Create (analyzeResourceChanges nv sched rcs), Update (analyzeResourceChanges nv sched rcs),
          Delete (analyzeResourceChanges nv sched rcs), Replace (analyzeResourceChanges nv sched rcs)}.
     \<forall>i j. i < j \<and> j < length b \<longrightarrow> detailAddress (b ! i) \<le> detailAddress (b ! j)"
  by (simp add: analyzeResourceChanges_def Let_def sortResourceDetails_nth_mono)

theorem buckets_sorted_witness:
  "map detailAddress (Create (analyzeResourceChanges itoa (scheduleOf [([], []), ([''foo''], [''foo'']), ([], []), ([], []), ([''foo''], [''foo''])])
      [\<lparr>Address = ''module.b.db'', ModuleAddress = [], Mode = ''managed'', Type = ''aws_db_instance'', Name = ''module.b.db'', ProviderName = ''aws'', Change = (\<lparr>Actions = [''create''], Before = JNull, After = JObj [(''name'', JStr ''x'')], AfterUnknown = JNull\<rparr> :: nat Change)\<rparr>,
       \<lparr>Address = ''u2'', ModuleAddress = [], Mode = ''managed'', Type = ''aws_db_instance'', Name = ''u2'', ProviderName = ''aws'', Change = (\<lparr>Actions = [''update''], Before = JObj [(''foo'', JStr ''a'')], After = JObj [(''foo'', JStr ''b'')], AfterUnknown = JNull\<rparr> :: nat Change)\<rparr>,
       \<lparr>Address = ''module.a.db'', ModuleAddress = [], Mode = ''managed'', Type = ''aws_db_instance'', Name = ''module.a.db'', ProviderName = ''aws'', Change = (\<lparr>Actions = [''create''], Before = JNull, After = JObj [(''name'', JStr ''x'')], AfterUnknown = JNull\<rparr> :: nat Change)\<rparr>,
       \<lparr>Address = ''aws.z'', ModuleAddress = [], Mode = ''managed'', Type = ''aws_db_instance'', Name = ''aws.z'', ProviderName = ''aws'', Change = (\<lparr>Actions = [''create''], Before = JNull, After = JObj [(''name'', JStr ''x'')], AfterUnknown = JNull\<rparr> :: nat Change)\<rparr>,
       \<lparr>Address = ''u1'', ModuleAddress = [], Mode = ''managed'', Type = ''aws_db_instance'', Name = ''u1'', ProviderName = ''aws'', Change = (\<lparr>Actions = [''update''], Before = JObj [(''foo'', JStr ''a'')], After = JObj [(''foo'', JStr ''b'')], AfterUnknown = JNull\<rparr> :: nat Change)\<rparr>])) = [''aws.z'', ''module.a.db'', ''module.b.db'']
   \<and> map detailAddress (Update (analyzeResourceChanges itoa (scheduleOf [([], []), ([''foo''], [''foo'']), ([], []), ([], []), ([''foo''], [''foo''])])
      [\<lparr>Address = ''module.b.db'', ModuleAddress = [], Mode = ''managed'', Type = ''aws_db_instance'', Name = ''module.b.db'', ProviderName = ''aws'', Change = (\<lparr>Actions = [''create''], Before = JNull, After = JObj [(''name'', JStr ''x'')], AfterUnknown = JNull\<rparr> :: nat Change)\<rparr>,
       \<lparr>Address = ''u2'', ModuleAddress = [], Mode = ''managed'', Type = ''aws_db_instance'', Name = ''u2'', ProviderName = ''aws'', Change = (\<lparr>Actions = [''update''], Before = JObj [(''foo'', JStr ''a'')], After = JObj [(''foo'', JStr ''b'')], AfterUnknown = JNull\<rparr> :: nat Change)\<rparr>,
       \<lparr>Address = ''module.a.db'', ModuleAddress = [], Mode = ''managed'', Type = ''aws_db_instance'', Name = ''module.a.db'', ProviderName = ''aws'', Change = (\<lparr>Actions = [''create''], Before = JNull, After = JObj [(''name'', JStr ''x'')], AfterUnknown = JNull\<rparr> :: nat Change)\<rparr>,
       \<lparr>Address = ''aws.z'', ModuleAddress = [], Mode = ''managed'', Type = ''aws_db_instance'', Name = ''aws.z'', ProviderName = ''aws'', Change = (\<lparr>Actions = [''create''], Before = JNull, After = JObj [(''name'', JStr ''x'')], AfterUnknown = JNull\<rparr> :: nat Change)\<rparr>,
       \<lparr>Address = ''u1'', ModuleAddress = [], Mode = ''managed'', Type = ''aws_db_instance'', Name = ''u1'', ProviderName = ''aws'', Change = (\<lparr>Actions = [''update''], Before = JObj [(''foo'', JStr ''a'')], After = JObj [(''foo'', JStr ''b'')], AfterUnknown = JNull\<rparr> :: nat Change)\<rparr>])) = [''u1'', ''u2'']
   \<and> (''aws.z'' :: string) \<le> ''module.a.db'' \<and> (''module.a.db'' :: string) \<le> ''module.b.db''
   \<and> (''u1'' :: string) \<le> ''u2''"
  using buckets_sorted[of itoa "(scheduleOf [([], []), ([''foo''], [''foo'']), ([], []), ([], []), ([''foo''], [''foo''])])"
      "[\<lparr>Address = ''module.b.db'', ModuleAddress = [], Mode = ''managed'', Type = ''aws_db_instance'', Name = ''module.b.db'', ProviderName = ''aws'', Change = (\<lparr>Actions = [''create''], Before = JNull, After = JObj [(''name'', JStr ''x'')], AfterUnknown = JNull\<rparr> :: nat Change)\<rparr>,
       \<lparr>Address = ''u2'', ModuleAddress = [], Mode = ''managed'', Type = ''aws_db_instance'', Name = ''u2'', ProviderName = ''aws'', Change = (\<lparr>Actions = [''update''], Before = JObj [(''foo'', JStr ''a'')], After = JObj [(''foo'', JStr ''b'')], AfterUnknown = JNull\<rparr> :: nat Change)\<rparr>,
       \<lparr>Address = ''module.a.db'', ModuleAddress = [], Mode = ''managed'', Type = ''aws_db_instance'', Name = ''module.a.db'', ProviderName = ''aws'', Change = (\<lparr>Actions = [''create''], Before = JNull, After = JObj [(''name'', JStr ''x'')], AfterUnknown = JNull\<rparr> :: nat Change)\<rparr>,
       \<lparr>Address = ''aws.z'', ModuleAddress = [], Mode = ''managed'', Type = ''aws_db_instance'', Name = ''aws.z'', ProviderName = ''aws'', Change = (\<lparr>Actions = [''create''], Before = JNull, After = JObj [(''name'', JStr ''x'')], AfterUnknown = JNull\<rparr> :: nat Change)\<rparr>,
       \<lparr>Address = ''u1'', ModuleAddress = [], Mode = ''managed'', Type = ''aws_db_instance'', Name = ''u1'', ProviderName = ''aws'', Change = (\<lparr>Actions = [''update''], Before = JObj [(''foo'', JStr ''a'')], After = JObj [(''foo'', JStr ''b'')], AfterUnknown = JNull\<rparr> :: nat Change)\<rparr>]"]
  by (simp add: analyzeResourceChanges_def classifyChange_def emptySummary_def sortResourceDetails_def
      scheduleOf_def Let_def analyzeAttributeChanges_def attributeStep_def shouldSkipAttribute_def skipAttributes_def
      deepEqual_def)

section \<open>Single-plan renderer\<close>

text \<open>
  Claim C8. For every plan whose summary has no change at all (the four buckets are empty,
  as for a plan without resource changes), the single-plan renderer returns the header
  followed by the no-changes sentence and nothing else.
\<close>

theorem no_changes_markdown:
  "(length (Create (analyzeResourceChanges nv sched (ResourceChanges plan)))
      + length (Update (analyzeResourceChanges nv sched (ResourceChanges plan)))
      + length (Delete (analyzeResourceChanges nv sched (ResourceChanges plan)))
      + length (Replace (analyzeResourceChanges nv sched (ResourceChanges plan))) = 0 \<longrightarrow>
    generateMarkdownComment nv sched plan =
      ''## '' @ emojiClipboard @ '' Terraform Plan Summary\<newline>\<newline>'' @ emojiCheck
      @ '' **No changes detected** - Infrastructure is up to date!\<newline>\<newline>'')
   \<and> (ResourceChanges plan = [] \<longrightarrow>
    generateMarkdownComment nv sched plan =
      ''## '' @ emojiClipboard @ '' Terraform Plan Summary\<newline>\<newline>'' @ emojiCheck
      @ '' **No changes detected** - Infrastructure is up to date!\<newline>\<newline>'')"
  by (simp add: generateMarkdownComment_def markdownOfSummary_def Let_def
      analyzeResourceChanges_def emptySummary_def sortResourceDetails_def)

text \<open>The empty plan, and a plan whose only resource change is a \<^verbatim>\<open>no-op\<close>.\<close>

theorem no_changes_markdown_witness:
  "generateMarkdownComment itoa (scheduleOf [([''foo''], [''foo''])])
      (\<lparr>FormatVersion = ''1.2'', TerraformVersion = ''1.9.8'', ResourceChanges = []\<rparr> :: nat TerraformPlan) =
      ''## '' @ emojiClipboard @ '' Terraform Plan Summary\<newline>\<newline>'' @ emojiCheck
      @ '' **No changes detected** - Infrastructure is up to date!\<newline>\<newline>''
   \<and> generateMarkdownComment itoa (scheduleOf [([''foo''], [''foo''])])
      \<lparr>FormatVersion = ''1.2'', TerraformVersion = ''1.9.8'', ResourceChanges = [\<lparr>Address = ''n1'', ModuleAddress = [], Mode = ''managed'', Type = ''aws_db_instance'', Name = ''n1'', ProviderName = ''aws'', Change = (\<lparr>Actions = [''no-op''], Before = JObj [(''foo'', JStr ''a'')], After = JObj [(''foo'', JStr ''a'')], AfterUnknown = JNull\<rparr> :: nat Change)\<rparr>]\<rparr> =
      ''## '' @ emojiClipboard @ '' Terraform Plan Summary\<newline>\<newline>'' @ emojiCheck
      @ '' **No changes detected** - Infrastructure is up to date!\<newline>\<newline>''"
  using no_changes_markdown[of itoa "(scheduleOf [([''foo''], [''foo''])])"
      "\<lparr>FormatVersion = ''1.2'', TerraformVersion = ''1.9.8'', ResourceChanges = []\<rparr>"]
    no_changes_markdown[of itoa "(scheduleOf [([''foo''], [''foo''])])"
      "\<lparr>FormatVersion = ''1.2'', TerraformVersion = ''1.9.8'', ResourceChanges = [\<lparr>Address = ''n1'', ModuleAddress = [], Mode = ''managed'', Type = ''aws_db_instance'', Name = ''n1'', ProviderName = ''aws'', Change = (\<lparr>Actions = [''no-op''], Before = JObj [(''foo'', JStr ''a'')], After = JObj [(''foo'', JStr ''a'')], AfterUnknown = JNull\<rparr> :: nat Change)\<rparr>]\<rparr>"]
  by (simp add: analyzeResourceChanges_def classifyChange_def emptySummary_def
      sortResourceDetails_def Let_def)

text \<open>
  Claim C9. Rendering is deterministic: the single-plan renderer applied twice to the same
  plan yields byte-identical Markdown; the output depends on the input alone.

  \<^verbatim>\<open>generateMarkdownComment\<close> takes the plan and analyses it first, and the analysis ranges
  over a Go map. The program sorts the entries of every bucket, and the plans of a
  directory, \<^verbatim>\<open>for consistent output\<close>, but it leaves the attribute changes of an entry
  in the order of the map iteration. For the plan below, one updated resource with two
  changed attributes, both key orders are orders that Go can take; the two runs report
  the attributes in different orders and return different Markdown.
\<close>

theorem render_depends_on_iteration_order:
  "rangeOrder [''a'', ''b'']
      (\<lparr>Actions = [''update''], Before = JObj [(''a'', JStr ''1''), (''b'', JStr ''1'')], After = JObj [(''a'', JStr ''2''), (''b'', JStr ''2'')], AfterUnknown = JNull\<rparr> :: nat Change)
   \<and> rangeOrder [''b'', ''a'']
      (\<lparr>Actions = [''update''], Before = JObj [(''a'', JStr ''1''), (''b'', JStr ''1'')], After = JObj [(''a'', JStr ''2''), (''b'', JStr ''2'')], AfterUnknown = JNull\<rparr> :: nat Change)
   \<and> map Attribute (concat (map Changes (Update (analyzeResourceChanges itoa (scheduleOf [([''a'', ''b''], [''a'', ''b''])])
      (ResourceChanges \<lparr>FormatVersion = ''1.2'', TerraformVersion = ''1.9.8'', ResourceChanges = [\<lparr>Address = ''u1'', ModuleAddress = [], Mode = ''managed'', Type = ''aws_db_instance'', Name = ''u1'', ProviderName = ''aws'', Change = (\<lparr>Actions = [''update''], Before = JObj [(''a'', JStr ''1''), (''b'', JStr ''1'')], After = JObj [(''a'', JStr ''2''), (''b'', JStr ''2'')], AfterUnknown = JNull\<rparr> :: nat Change)\<rparr>]\<rparr>))))) = [''a'', ''b'']
   \<and> map Attribute (concat (map Changes (Update (analyzeResourceChanges itoa (scheduleOf [([''b'', ''a''], [''b'', ''a''])])
      (ResourceChanges \<lparr>FormatVersion = ''1.2'', TerraformVersion = ''1.9.8'', ResourceChanges = [\<lparr>Address = ''u1'', ModuleAddress = [], Mode = ''managed'', Type = ''aws_db_instance'', Name = ''u1'', ProviderName = ''aws'', Change = (\<lparr>Actions = [''update''], Before = JObj [(''a'', JStr ''1''), (''b'', JStr ''1'')], After = JObj [(''a'', JStr ''2''), (''b'', JStr ''2'')], AfterUnknown = JNull\<rparr> :: nat Change)\<rparr>]\<rparr>))))) = [''b'', ''a'']
   \<and> generateMarkdownComment itoa (scheduleOf [([''a'', ''b''], [''a'', ''b''])])
      \<lparr>FormatVersion = ''1.2'', TerraformVersion = ''1.9.8'', ResourceChanges = [\<lparr>Address = ''u1'', ModuleAddress = [], Mode = ''managed'', Type = ''aws_db_instance'', Name = ''u1'', ProviderName = ''aws'', Change = (\<lparr>Actions = [''update''], Before = JObj [(''a'', JStr ''1''), (''b'', JStr ''1'')], After = JObj [(''a'', JStr ''2''), (''b'', JStr ''2'')], AfterUnknown = JNull\<rparr> :: nat Change)\<rparr>]\<rparr>
     \<noteq> generateMarkdownComment itoa (scheduleOf [([''b'', ''a''], [''b'', ''a''])])
      \<lparr>FormatVersion = ''1.2'', TerraformVersion = ''1.9.8'', ResourceChanges = [\<lparr>Address = ''u1'', ModuleAddress = [], Mode = ''managed'', Type = ''aws_db_instance'', Name = ''u1'', ProviderName = ''aws'', Change = (\<lparr>Actions = [''update''], Before = JObj [(''a'', JStr ''1''), (''b'', JStr ''1'')], After = JObj [(''a'', JStr ''2''), (''b'', JStr ''2'')], AfterUnknown = JNull\<rparr> :: nat Change)\<rparr>]\<rparr>"
proof -
  have "rangeOrder [''a'', ''b'']
      (\<lparr>Actions = [''update''], Before = JObj [(''a'', JStr ''1''), (''b'', JStr ''1'')], After = JObj [(''a'', JStr ''2''), (''b'', JStr ''2'')], AfterUnknown = JNull\<rparr> :: nat Change)"
    by (auto simp: rangeOrder_def)
  moreover have "rangeOrder [''b'', ''a'']
      (\<lparr>Actions = [''update''], Before = JObj [(''a'', JStr ''1''), (''b'', JStr ''1'')], After = JObj [(''a'', JStr ''2''), (''b'', JStr ''2'')], AfterUnknown = JNull\<rparr> :: nat Change)"
    by (auto simp: rangeOrder_def)
  moreover have "map Attribute (concat (map Changes (Update (analyzeResourceChanges itoa (scheduleOf [([''a'', ''b''], [''a'', ''b''])])
      (ResourceChanges \<lparr>FormatVersion = ''1.2'', TerraformVersion = ''1.9.8'', ResourceChanges = [\<lparr>Address = ''u1'', ModuleAddress = [], Mode = ''managed'', Type = ''aws_db_instance'', Name = ''u1'', ProviderName = ''aws'', Change = (\<lparr>Actions = [''update''], Before = JObj [(''a'', JStr ''1''), (''b'', JStr ''1'')], After = JObj [(''a'', JStr ''2''), (''b'', JStr ''2'')], AfterUnknown = JNull\<rparr> :: nat Change)\<rparr>]\<rparr>))))) = [''a'', ''b'']"
    by (simp add: analyzeResourceChanges_def classifyChange_def emptySummary_def sortResourceDetails_def
      scheduleOf_def Let_def analyzeAttributeChanges_def attributeStep_def shouldSkipAttribute_def skipAttributes_def
      deepEqual_def)
  moreover have "map Attribute (concat (map Changes (Update (analyzeResourceChanges itoa (scheduleOf [([''b'', ''a''], [''b'', ''a''])])
      (ResourceChanges \<lparr>FormatVersion = ''1.2'', TerraformVersion = ''1.9.8'', ResourceChanges = [\<lparr>Address = ''u1'', ModuleAddress = [], Mode = ''managed'', Type = ''aws_db_instance'', Name = ''u1'', ProviderName = ''aws'', Change = (\<lparr>Actions = [''update''], Before = JObj [(''a'', JStr ''1''), (''b'', JStr ''1'')], After = JObj [(''a'', JStr ''2''), (''b'', JStr ''2'')], AfterUnknown = JNull\<rparr> :: nat Change)\<rparr>]\<rparr>))))) = [''b'', ''a'']"
    by (simp add: analyzeResourceChanges_def classifyChange_def emptySummary_def sortResourceDetails_def
      scheduleOf_def Let_def analyzeAttributeChanges_def attributeStep_def shouldSkipAttribute_def skipAttributes_def
      deepEqual_def)
  moreover have "generateMarkdownComment itoa (scheduleOf [([''a'', ''b''], [''a'', ''b''])])
      \<lparr>FormatVersion = ''1.2'', TerraformVersion = ''1.9.8'', ResourceChanges = [\<lparr>Address = ''u1'', ModuleAddress = [], Mode = ''managed'', Type = ''aws_db_instance'', Name = ''u1'', ProviderName = ''aws'', Change = (\<lparr>Actions = [''update''], Before = JObj [(''a'', JStr ''1''), (''b'', JStr ''1'')], After = JObj [(''a'', JStr ''2''), (''b'', JStr ''2'')], AfterUnknown = JNull\<rparr> :: nat Change)\<rparr>]\<rparr>
     \<noteq> generateMarkdownComment itoa (scheduleOf [([''b'', ''a''], [''b'', ''a''])])
      \<lparr>FormatVersion = ''1.2'', TerraformVersion = ''1.9.8'', ResourceChanges = [\<lparr>Address = ''u1'', ModuleAddress = [], Mode = ''managed'', Type = ''aws_db_instance'', Name = ''u1'', ProviderName = ''aws'', Change = (\<lparr>Actions = [''update''], Before = JObj [(''a'', JStr ''1''), (''b'', JStr ''1'')], After = JObj [(''a'', JStr ''2''), (''b'', JStr ''2'')], AfterUnknown = JNull\<rparr> :: nat Change)\<rparr>]\<rparr>"
    by (simp add: generateMarkdownComment_def markdownOfSummary_def summaryTable_def tableRow_def
      formatResourceList_def createSection_def updateSection_def updateResource_def
      replaceSection_def deleteSection_def attributeLine_def
      analyzeResourceChanges_def classifyChange_def emptySummary_def sortResourceDetails_def
      scheduleOf_def Let_def analyzeAttributeChanges_def attributeStep_def shouldSkipAttribute_def skipAttributes_def
      deepEqual_def)
  ultimately show ?thesis by blast
qed

text \<open>
  What does hold of the single-plan renderer: its Markdown is a function of the plan and
  of the key orders that the map iterations take on the plan's resource changes. Two runs
  that take the same orders, or that reach the same summary, return the same Markdown; and
  when no resource change of the plan has more than one attribute to report, the Markdown
  is the same under all key orders.
\<close>

lemma render_determined_by_schedule:
  "((\<forall>i < length (ResourceChanges plan). s1 i = s2 i) \<longrightarrow>
      generateMarkdownComment nv s1 plan = generateMarkdownComment nv s2 plan)
   \<and> (analyzeResourceChanges nv s1 (ResourceChanges plan)
        = analyzeResourceChanges nv s2 (ResourceChanges plan) \<longrightarrow>
      generateMarkdownComment nv s1 plan = generateMarkdownComment nv s2 plan)
   \<and> (validSchedule s1 (ResourceChanges plan) \<and> validSchedule s2 (ResourceChanges plan)
        \<and> (\<forall>rc \<in> set (ResourceChanges plan). length (reportableKeys nv (Change rc)) \<le> 1) \<longrightarrow>
      generateMarkdownComment nv s1 plan = generateMarkdownComment nv s2 plan)"
proof (intro conjI impI)
  assume "\<forall>i < length (ResourceChanges plan). s1 i = s2 i"
  then have "classifyLoop nv s1 0 (ResourceChanges plan) emptySummary
      = classifyLoop nv s2 0 (ResourceChanges plan) emptySummary"
    by (intro classifyLoop_cong) simp
  then show "generateMarkdownComment nv s1 plan = generateMarkdownComment nv s2 plan"
    by (simp add: generateMarkdownComment_def analyzeResourceChanges_def)
next
  assume "analyzeResourceChanges nv s1 (ResourceChanges plan)
        = analyzeResourceChanges nv s2 (ResourceChanges plan)"
  then show "generateMarkdownComment nv s1 plan = generateMarkdownComment nv s2 plan"
    by (simp add: generateMarkdownComment_def)
next
  assume "validSchedule s1 (ResourceChanges plan) \<and> validSchedule s2 (ResourceChanges plan)
        \<and> (\<forall>rc \<in> set (ResourceChanges plan). length (reportableKeys nv (Change rc)) \<le> 1)"
  then have "analyzeResourceChanges nv s1 (ResourceChanges plan)
        = analyzeResourceChanges nv s2 (ResourceChanges plan)"
    by (intro analyzeResourceChanges_order_irrelevant) simp_all
  then show "generateMarkdownComment nv s1 plan = generateMarkdownComment nv s2 plan"
    by (simp add: generateMarkdownComment_def)
qed

text \<open>
  Two schedules that differ only beyond the plan's one resource change; and, for a plan
  whose resource has a single changed attribute, the two key orders of its two keys.
\<close>

lemma render_determined_by_schedule_example:
  "(scheduleOf [([''a'', ''b''], [''a'', ''b''])]) 0 = (scheduleOf [([''a'', ''b''], [''a'', ''b'']), ([''x''], [''y''])]) 0
   \<and> (scheduleOf [([''a'', ''b''], [''a'', ''b''])]) 1 \<noteq> (scheduleOf [([''a'', ''b''], [''a'', ''b'']), ([''x''], [''y''])]) 1
   \<and> generateMarkdownComment itoa (scheduleOf [([''a'', ''b''], [''a'', ''b''])])
      \<lparr>FormatVersion = ''1.2'', TerraformVersion = ''1.9.8'', ResourceChanges = [\<lparr>Address = ''u1'', ModuleAddress = [], Mode = ''managed'', Type = ''aws_db_instance'', Name = ''u1'', ProviderName = ''aws'', Change = (\<lparr>Actions = [''update''], Before = JObj [(''a'', JStr ''1''), (''b'', JStr ''1'')], After = JObj [(''a'', JStr ''2''), (''b'', JStr ''2'')], AfterUnknown = JNull\<rparr> :: nat Change)\<rparr>]\<rparr>
     = generateMarkdownComment itoa (scheduleOf [([''a'', ''b''], [''a'', ''b'']), ([''x''], [''y''])])
      \<lparr>FormatVersion = ''1.2'', TerraformVersion = ''1.9.8'', ResourceChanges = [\<lparr>Address = ''u1'', ModuleAddress = [], Mode = ''managed'', Type = ''aws_db_instance'', Name = ''u1'', ProviderName = ''aws'', Change = (\<lparr>Actions = [''update''], Before = JObj [(''a'', JStr ''1''), (''b'', JStr ''1'')], After = JObj [(''a'', JStr ''2''), (''b'', JStr ''2'')], AfterUnknown = JNull\<rparr> :: nat Change)\<rparr>]\<rparr>
   \<and> validSchedule (scheduleOf [([''a'', ''b''], [''a'', ''b''])])
      (ResourceChanges \<lparr>FormatVersion = ''1.2'', TerraformVersion = ''1.9.8'', ResourceChanges = [\<lparr>Address = ''u1'', ModuleAddress = [], Mode = ''managed'', Type = ''aws_db_instance'', Name = ''u1'', ProviderName = ''aws'', Change = (\<lparr>Actions = [''update''], Before = JObj [(''a'', JStr ''1''), (''b'', JStr ''1'')], After = JObj [(''a'', JStr ''2''), (''b'', JStr ''1'')], AfterUnknown = JNull\<rparr> :: nat Change)\<rparr>]\<rparr>)
   \<and> validSchedule (scheduleOf [([''b'', ''a''], [''b'', ''a''])])
      (ResourceChanges \<lparr>FormatVersion = ''1.2'', TerraformVersion = ''1.9.8'', ResourceChanges = [\<lparr>Address = ''u1'', ModuleAddress = [], Mode = ''managed'', Type = ''aws_db_instance'', Name = ''u1'', ProviderName = ''aws'', Change = (\<lparr>Actions = [''update''], Before = JObj [(''a'', JStr ''1''), (''b'', JStr ''1'')], After = JObj [(''a'', JStr ''2''), (''b'', JStr ''1'')], AfterUnknown = JNull\<rparr> :: nat Change)\<rparr>]\<rparr>)
   \<and> reportableKeys itoa
      (\<lparr>Actions = [''update''], Before = JObj [(''a'', JStr ''1''), (''b'', JStr ''1'')], After = JObj [(''a'', JStr ''2''), (''b'', JStr ''1'')], AfterUnknown = JNull\<rparr> :: nat Change) = [''a'']
   \<and> generateMarkdownComment itoa (scheduleOf [([''a'', ''b''], [''a'', ''b''])])
      \<lparr>FormatVersion = ''1.2'', TerraformVersion = ''1.9.8'', ResourceChanges = [\<lparr>Address = ''u1'', ModuleAddress = [], Mode = ''managed'', Type = ''aws_db_instance'', Name = ''u1'', ProviderName = ''aws'', Change = (\<lparr>Actions = [''update''], Before = JObj [(''a'', JStr ''1''), (''b'', JStr ''1'')], After = JObj [(''a'', JStr ''2''), (''b'', JStr ''1'')], AfterUnknown = JNull\<rparr> :: nat Change)\<rparr>]\<rparr>
     = generateMarkdownComment itoa (scheduleOf [([''b'', ''a''], [''b'', ''a''])])
      \<lparr>FormatVersion = ''1.2'', TerraformVersion = ''1.9.8'', ResourceChanges = [\<lparr>Address = ''u1'', ModuleAddress = [], Mode = ''managed'', Type = ''aws_db_instance'', Name = ''u1'', ProviderName = ''aws'', Change = (\<lparr>Actions = [''update''], Before = JObj [(''a'', JStr ''1''), (''b'', JStr ''1'')], After = JObj [(''a'', JStr ''2''), (''b'', JStr ''1'')], AfterUnknown = JNull\<rparr> :: nat Change)\<rparr>]\<rparr>"
proof -
  have v1: "validSchedule (scheduleOf [([''a'', ''b''], [''a'', ''b''])])
      (ResourceChanges \<lparr>FormatVersion = ''1.2'', TerraformVersion = ''1.9.8'', ResourceChanges = [\<lparr>Address = ''u1'', ModuleAddress = [], Mode = ''managed'', Type = ''aws_db_instance'', Name = ''u1'', ProviderName = ''aws'', Change = (\<lparr>Actions = [''update''], Before = JObj [(''a'', JStr ''1''), (''b'', JStr ''1'')], After = JObj [(''a'', JStr ''2''), (''b'', JStr ''1'')], AfterUnknown = JNull\<rparr> :: nat Change)\<rparr>]\<rparr>)"
    by (auto simp: validSchedule_def rangeOrder_def scheduleOf_def)
  have v2: "validSchedule (scheduleOf [([''b'', ''a''], [''b'', ''a''])])
      (ResourceChanges \<lparr>FormatVersion = ''1.2'', TerraformVersion = ''1.9.8'', ResourceChanges = [\<lparr>Address = ''u1'', ModuleAddress = [], Mode = ''managed'', Type = ''aws_db_instance'', Name = ''u1'', ProviderName = ''aws'', Change = (\<lparr>Actions = [''update''], Before = JObj [(''a'', JStr ''1''), (''b'', JStr ''1'')], After = JObj [(''a'', JStr ''2''), (''b'', JStr ''1'')], AfterUnknown = JNull\<rparr> :: nat Change)\<rparr>]\<rparr>)"
    by (auto simp: validSchedule_def rangeOrder_def scheduleOf_def)
  have k: "reportableKeys itoa
      (\<lparr>Actions = [''update''], Before = JObj [(''a'', JStr ''1''), (''b'', JStr ''1'')], After = JObj [(''a'', JStr ''2''), (''b'', JStr ''1'')], AfterUnknown = JNull\<rparr> :: nat Change) = [''a'']"
    by (simp add: reportableKeys_def attributeStep_def shouldSkipAttribute_def skipAttributes_def
        deepEqual_def)
  have a: "generateMarkdownComment itoa (scheduleOf [([''a'', ''b''], [''a'', ''b''])])
      \<lparr>FormatVersion = ''1.2'', TerraformVersion = ''1.9.8'', ResourceChanges = [\<lparr>Address = ''u1'', ModuleAddress = [], Mode = ''managed'', Type = ''aws_db_instance'', Name = ''u1'', ProviderName = ''aws'', Change = (\<lparr>Actions = [''update''], Before = JObj [(''a'', JStr ''1''), (''b'', JStr ''1'')], After = JObj [(''a'', JStr ''2''), (''b'', JStr ''2'')], AfterUnknown = JNull\<rparr> :: nat Change)\<rparr>]\<rparr>
     = generateMarkdownComment itoa (scheduleOf [([''a'', ''b''], [''a'', ''b'']), ([''x''], [''y''])])
      \<lparr>FormatVersion = ''1.2'', TerraformVersion = ''1.9.8'', ResourceChanges = [\<lparr>Address = ''u1'', ModuleAddress = [], Mode = ''managed'', Type = ''aws_db_instance'', Name = ''u1'', ProviderName = ''aws'', Change = (\<lparr>Actions = [''update''], Before = JObj [(''a'', JStr ''1''), (''b'', JStr ''1'')], After = JObj [(''a'', JStr ''2''), (''b'', JStr ''2'')], AfterUnknown = JNull\<rparr> :: nat Change)\<rparr>]\<rparr>"
    using render_determined_by_schedule[of "\<lparr>FormatVersion = ''1.2'', TerraformVersion = ''1.9.8'', ResourceChanges = [\<lparr>Address = ''u1'', ModuleAddress = [], Mode = ''managed'', Type = ''aws_db_instance'', Name = ''u1'', ProviderName = ''aws'', Change = (\<lparr>Actions = [''update''], Before = JObj [(''a'', JStr ''1''), (''b'', JStr ''1'')], After = JObj [(''a'', JStr ''2''), (''b'', JStr ''2'')], AfterUnknown = JNull\<rparr> :: nat Change)\<rparr>]\<rparr>"
      "(scheduleOf [([''a'', ''b''], [''a'', ''b''])])"
      "(scheduleOf [([''a'', ''b''], [''a'', ''b'']), ([''x''], [''y''])])" itoa]
    by (simp add: scheduleOf_def)
  have b: "generateMarkdownComment itoa (scheduleOf [([''a'', ''b''], [''a'', ''b''])])
      \<lparr>FormatVersion = ''1.2'', TerraformVersion = ''1.9.8'', ResourceChanges = [\<lparr>Address = ''u1'', ModuleAddress = [], Mode = ''managed'', Type = ''aws_db_instance'', Name = ''u1'', ProviderName = ''aws'', Change = (\<lparr>Actions = [''update''], Before = JObj [(''a'', JStr ''1''), (''b'', JStr ''1'')], After = JObj [(''a'', JStr ''2''), (''b'', JStr ''1'')], AfterUnknown = JNull\<rparr> :: nat Change)\<rparr>]\<rparr>
     = generateMarkdownComment itoa (scheduleOf [([''b'', ''a''], [''b'', ''a''])])
      \<lparr>FormatVersion = ''1.2'', TerraformVersion = ''1.9.8'', ResourceChanges = [\<lparr>Address = ''u1'', ModuleAddress = [], Mode = ''managed'', Type = ''aws_db_instance'', Name = ''u1'', ProviderName = ''aws'', Change = (\<lparr>Actions = [''update''], Before = JObj [(''a'', JStr ''1''), (''b'', JStr ''1'')], After = JObj [(''a'', JStr ''2''), (''b'', JStr ''1'')], AfterUnknown = JNull\<rparr> :: nat Change)\<rparr>]\<rparr>"
    using v1 v2 k render_determined_by_schedule[of "\<lparr>FormatVersion = ''1.2'', TerraformVersion = ''1.9.8'', ResourceChanges = [\<lparr>Address = ''u1'', ModuleAddress = [], Mode = ''managed'', Type = ''aws_db_instance'', Name = ''u1'', ProviderName = ''aws'', Change = (\<lparr>Actions = [''update''], Before = JObj [(''a'', JStr ''1''), (''b'', JStr ''1'')], After = JObj [(''a'', JStr ''2''), (''b'', JStr ''1'')], AfterUnknown = JNull\<rparr> :: nat Change)\<rparr>]\<rparr>"
      "(scheduleOf [([''a'', ''b''], [''a'', ''b''])])"
      "(scheduleOf [([''b'', ''a''], [''b'', ''a''])])" itoa]
    by simp
  show ?thesis
    using v1 v2 k a b by (simp add: scheduleOf_def)
qed

section \<open>Replacement reason and skip-set\<close>

text \<open>
  Claim C10. For every Replace-classified change whose \<^verbatim>\<open>before\<close> and \<^verbatim>\<open>after\<close> mappings
  differ only at skip-set keys, the recomputed diff is empty and the replacement reason is
  \<^verbatim>\<open>Resource configuration requires replacement\<close>; skip-set attributes never appear in a
  replacement reason nor determine it, and the list of \<^verbatim>\<open>determineReplaceReason\<close> and the
  skip-set are disjoint.

  The last part of the theorem says that the reason does not depend on the skip-set
  attributes: two changes that agree on every other key, iterated in orders that agree
  on the other keys, have the same replacement reason.
\<close>

theorem skip_only_difference_generic_reason:
  "(Before ch = JObj b \<and> After ch = JObj a
      \<and> (\<forall>k. k \<notin> {''id'', ''arn'', ''tags_all'', ''timeouts''} \<longrightarrow> map_of b k = map_of a k) \<longrightarrow>
      analyzeAttributeChanges nv ks ch = []
      \<and> determineReplaceReason nv ks ch = ''Resource configuration requires replacement'')
   \<and> set forceReplaceAttrs \<inter> set skipAttributes = {}
   \<and> (Before ch = JObj b \<and> After ch = JObj a \<and> Before ch' = JObj b' \<and> After ch' = JObj a'
      \<and> (\<forall>k. k \<notin> {''id'', ''arn'', ''tags_all'', ''timeouts''} \<longrightarrow>
             map_of b k = map_of b' k \<and> map_of a k = map_of a' k)
      \<and> filter (\<lambda>k. k \<notin> {''id'', ''arn'', ''tags_all'', ''timeouts''}) ks
          = filter (\<lambda>k. k \<notin> {''id'', ''arn'', ''tags_all'', ''timeouts''}) ks' \<longrightarrow>
      determineReplaceReason nv ks ch = determineReplaceReason nv ks' ch')"
proof (intro conjI impI)
  assume h: "Before ch = JObj b \<and> After ch = JObj a
      \<and> (\<forall>k. k \<notin> {''id'', ''arn'', ''tags_all'', ''timeouts''} \<longrightarrow> map_of b k = map_of a k)"
  have "attributeStep nv b a k = []" for k
    using h attributeStep_same_lookup[of b k a nv] attributeStep_skip[of k nv b a]
    by (cases "shouldSkipAttribute k") (auto simp: shouldSkipAttribute_iff)
  with h show e: "analyzeAttributeChanges nv ks ch = []"
    by (simp add: analyzeAttributeChanges_maps)
  then show "determineReplaceReason nv ks ch = ''Resource configuration requires replacement''"
    by (simp add: determineReplaceReason_def)
next
  show "set forceReplaceAttrs \<inter> set skipAttributes = {}"
    by (simp add: forceReplaceAttrs_def skipAttributes_def)
next
  assume h: "Before ch = JObj b \<and> After ch = JObj a \<and> Before ch' = JObj b' \<and> After ch' = JObj a'
      \<and> (\<forall>k. k \<notin> {''id'', ''arn'', ''tags_all'', ''timeouts''} \<longrightarrow>
             map_of b k = map_of b' k \<and> map_of a k = map_of a' k)
      \<and> filter (\<lambda>k. k \<notin> {''id'', ''arn'', ''tags_all'', ''timeouts''}) ks
          = filter (\<lambda>k. k \<notin> {''id'', ''arn'', ''tags_all'', ''timeouts''}) ks'"
  have i: "(\<lambda>k. \<not> shouldSkipAttribute k) = (\<lambda>k. k \<notin> {''id'', ''arn'', ''tags_all'', ''timeouts''})"
    by (rule ext) (simp only: shouldSkipAttribute_iff)
  have "analyzeAttributeChanges nv ks ch = analyzeAttributeChanges nv ks' ch'"
    using h by (intro analyzeAttributeChanges_skip_independent[of ch b a ch' b' a'])
      (simp_all add: i shouldSkipAttribute_iff)
  then show "determineReplaceReason nv ks ch = determineReplaceReason nv ks' ch'"
    unfolding determineReplaceReason_def by (rule arg_cong)
qed

text \<open>
  A replacement whose mappings differ at \<^verbatim>\<open>id\<close>, \<^verbatim>\<open>arn\<close> and \<^verbatim>\<open>tags_all\<close> only; and two
  replacements with the same change of \<^verbatim>\<open>name\<close> and different skip-set attributes.
\<close>

theorem skip_only_difference_generic_reason_witness:
  "rangeOrder [''tags_all'', ''name'', ''id'', ''arn'']
      (\<lparr>Actions = [''create'', ''delete''], Before = JObj [(''id'', JStr ''i-1''), (''name'', JStr ''db''), (''arn'', JStr ''arn:1'')], After = JObj [(''id'', JStr ''i-2''), (''name'', JStr ''db''), (''arn'', JStr ''arn:2''), (''tags_all'', JObj [])], AfterUnknown = JNull\<rparr> :: nat Change)
   \<and> analyzeAttributeChanges itoa [''tags_all'', ''name'', ''id'', ''arn'']
      (\<lparr>Actions = [''create'', ''delete''], Before = JObj [(''id'', JStr ''i-1''), (''name'', JStr ''db''), (''arn'', JStr ''arn:1'')], After = JObj [(''id'', JStr ''i-2''), (''name'', JStr ''db''), (''arn'', JStr ''arn:2''), (''tags_all'', JObj [])], AfterUnknown = JNull\<rparr> :: nat Change) = []
   \<and> determineReplaceReason itoa [''tags_all'', ''name'', ''id'', ''arn'']
      (\<lparr>Actions = [''create'', ''delete''], Before = JObj [(''id'', JStr ''i-1''), (''name'', JStr ''db''), (''arn'', JStr ''arn:1'')], After = JObj [(''id'', JStr ''i-2''), (''name'', JStr ''db''), (''arn'', JStr ''arn:2''), (''tags_all'', JObj [])], AfterUnknown = JNull\<rparr> :: nat Change) = ''Resource configuration requires replacement''
   \<and> determineReplaceReason itoa [''id'', ''name'']
      (\<lparr>Actions = [''create'', ''delete''], Before = JObj [(''id'', JStr ''i-1''), (''name'', JStr ''old'')], After = JObj [(''id'', JStr ''i-2''), (''name'', JStr ''new'')], AfterUnknown = JNull\<rparr> :: nat Change)
     = determineReplaceReason itoa [''name'', ''arn'', ''id'']
      (\<lparr>Actions = [''create'', ''delete''], Before = JObj [(''name'', JStr ''old''), (''arn'', JStr ''arn:1''), (''id'', JStr ''i-7'')], After = JObj [(''name'', JStr ''new''), (''arn'', JStr ''arn:2'')], AfterUnknown = JNull\<rparr> :: nat Change)"
proof -
  have r: "rangeOrder [''tags_all'', ''name'', ''id'', ''arn'']
      (\<lparr>Actions = [''create'', ''delete''], Before = JObj [(''id'', JStr ''i-1''), (''name'', JStr ''db''), (''arn'', JStr ''arn:1'')], After = JObj [(''id'', JStr ''i-2''), (''name'', JStr ''db''), (''arn'', JStr ''arn:2''), (''tags_all'', JObj [])], AfterUnknown = JNull\<rparr> :: nat Change)"
    by (auto simp: rangeOrder_def)
  have h: "\<forall>k. k \<notin> {''id'', ''arn'', ''tags_all'', ''timeouts''} \<longrightarrow>
      map_of [(''id'', JStr ''i-1''), (''name'', JStr ''db''), (''arn'', JStr ''arn:1'')] k
      = map_of ([(''id'', JStr ''i-2''), (''name'', JStr ''db''), (''arn'', JStr ''arn:2''), (''tags_all'', JObj [])] :: (string \<times> nat jvalue) list) k"
    by simp
  have h': "\<forall>k. k \<notin> {''id'', ''arn'', ''tags_all'', ''timeouts''} \<longrightarrow>
      map_of [(''id'', JStr ''i-1''), (''name'', JStr ''old'')] k
      = map_of ([(''name'', JStr ''old''), (''arn'', JStr ''arn:1''), (''id'', JStr ''i-7'')] :: (string \<times> nat jvalue) list) k
      \<and> map_of [(''id'', JStr ''i-2''), (''name'', JStr ''new'')] k
      = map_of ([(''name'', JStr ''new''), (''arn'', JStr ''arn:2'')] :: (string \<times> nat jvalue) list) k"
    by simp
  have f: "filter (\<lambda>k. k \<notin> {''id'', ''arn'', ''tags_all'', ''timeouts''}) [''id'', ''name'']
      = filter (\<lambda>k. k \<notin> {''id'', ''arn'', ''tags_all'', ''timeouts''}) [''name'', ''arn'', ''id'']"
    by simp
  have one: "analyzeAttributeChanges itoa [''tags_all'', ''name'', ''id'', ''arn'']
      (\<lparr>Actions = [''create'', ''delete''], Before = JObj [(''id'', JStr ''i-1''), (''name'', JStr ''db''), (''arn'', JStr ''arn:1'')], After = JObj [(''id'', JStr ''i-2''), (''name'', JStr ''db''), (''arn'', JStr ''arn:2''), (''tags_all'', JObj [])], AfterUnknown = JNull\<rparr> :: nat Change) = []
   \<and> determineReplaceReason itoa [''tags_all'', ''name'', ''id'', ''arn'']
      (\<lparr>Actions = [''create'', ''delete''], Before = JObj [(''id'', JStr ''i-1''), (''name'', JStr ''db''), (''arn'', JStr ''arn:1'')], After = JObj [(''id'', JStr ''i-2''), (''name'', JStr ''db''), (''arn'', JStr ''arn:2''), (''tags_all'', JObj [])], AfterUnknown = JNull\<rparr> :: nat Change) = ''Resource configuration requires replacement''"
    using h skip_only_difference_generic_reason[of
      "(\<lparr>Actions = [''create'', ''delete''], Before = JObj [(''id'', JStr ''i-1''), (''name'', JStr ''db''), (''arn'', JStr ''arn:1'')], After = JObj [(''id'', JStr ''i-2''), (''name'', JStr ''db''), (''arn'', JStr ''arn:2''), (''tags_all'', JObj [])], AfterUnknown = JNull\<rparr> :: nat Change)"
      "[(''id'', JStr ''i-1''), (''name'', JStr ''db''), (''arn'', JStr ''arn:1'')]"
      "[(''id'', JStr ''i-2''), (''name'', JStr ''db''), (''arn'', JStr ''arn:2''), (''tags_all'', JObj [])]" itoa
      "[''tags_all'', ''name'', ''id'', ''arn'']"]
    by simp
  have two: "determineReplaceReason itoa [''id'', ''name'']
      (\<lparr>Actions = [''create'', ''delete''], Before = JObj [(''id'', JStr ''i-1''), (''name'', JStr ''old'')], After = JObj [(''id'', JStr ''i-2''), (''name'', JStr ''new'')], AfterUnknown = JNull\<rparr> :: nat Change)
     = determineReplaceReason itoa [''name'', ''arn'', ''id'']
      (\<lparr>Actions = [''create'', ''delete''], Before = JObj [(''name'', JStr ''old''), (''arn'', JStr ''arn:1''), (''id'', JStr ''i-7'')], After = JObj [(''name'', JStr ''new''), (''arn'', JStr ''arn:2'')], AfterUnknown = JNull\<rparr> :: nat Change)"
    using h' f skip_only_difference_generic_reason[where nv = itoa
      and ch = "(\<lparr>Actions = [''create'', ''delete''], Before = JObj [(''id'', JStr ''i-1''), (''name'', JStr ''old'')], After = JObj [(''id'', JStr ''i-2''), (''name'', JStr ''new'')], AfterUnknown = JNull\<rparr> :: nat Change)"
      and b = "[(''id'', JStr ''i-1''), (''name'', JStr ''old'')]"
      and a = "[(''id'', JStr ''i-2''), (''name'', JStr ''new'')]"
      and ks = "[''id'', ''name'']"
      and ch' = "(\<lparr>Actions = [''create'', ''delete''], Before = JObj [(''name'', JStr ''old''), (''arn'', JStr ''arn:1''), (''id'', JStr ''i-7'')], After = JObj [(''name'', JStr ''new''), (''arn'', JStr ''arn:2'')], AfterUnknown = JNull\<rparr> :: nat Change)"
      and b' = "[(''name'', JStr ''old''), (''arn'', JStr ''arn:1''), (''id'', JStr ''i-7'')]"
      and a' = "[(''name'', JStr ''new''), (''arn'', JStr ''arn:2'')]"
      and ks' = "[''name'', ''arn'', ''id'']"]
    by simp
  show ?thesis
    using r one two by simp
qed

end
